theory Spec2Isabelle
  imports Complex_Main
begin

section \<open>Turtle's adventure: data model\<close>

text \<open>
  A shallow embedding of \<^verbatim>\<open>turtle_adventure.py\<close>. Python floats are read as
  real numbers and Python ints as integers; an int that meets a float is
  coerced with \<^term>\<open>real_of_int\<close>, as Python's arithmetic does. Every object
  of the program holds a back reference to the game; here the game is passed
  to each method and returned when the method changes it.
\<close>

datatype error = ZeroDivisionError | ValueError | IndexError

text \<open>Float division \<^verbatim>\<open>a / b\<close>: Python raises on a zero divisor.\<close>

definition truediv :: "real \<Rightarrow> real \<Rightarrow> error + real" where
  "truediv a b = (if b = 0 then Inl ZeroDivisionError else Inr (a / b))"

text \<open>Sequencing of computations that may raise: the first error is passed on.\<close>

definition bind_err :: "error + 'a \<Rightarrow> ('a \<Rightarrow> error + 'b) \<Rightarrow> error + 'b" where
  "bind_err m f = (case m of Inl e \<Rightarrow> Inl e | Inr v \<Rightarrow> f v)"

subsection \<open>Waypoint\<close>

record waypoint =
  waypoint_x :: real
  waypoint_y :: real
  is_active :: bool

definition activate :: "waypoint \<Rightarrow> real \<Rightarrow> real \<Rightarrow> waypoint" where
  "activate w x y = w\<lparr>is_active := True, waypoint_x := x, waypoint_y := y\<rparr>"

definition deactivate :: "waypoint \<Rightarrow> waypoint" where
  "deactivate w = w\<lparr>is_active := False\<rparr>"

subsection \<open>Home\<close>

text \<open>
  \<^verbatim>\<open>Home.__init__(game, pos: tuple[int, int], size: int)\<close>: position and size are
  ints, and \<^verbatim>\<open>random.randint\<close> in the fencing spawn rule needs them to be.
\<close>

record home =
  home_x :: int
  home_y :: int
  home_size :: int

definition Home_init :: "int \<times> int \<Rightarrow> int \<Rightarrow> home" where
  "Home_init pos sz = \<lparr>home_x = fst pos, home_y = snd pos, home_size = sz\<rparr>"

definition contains :: "home \<Rightarrow> real \<Rightarrow> real \<Rightarrow> bool" where
  "contains h x y =
     (let x1 = real_of_int (home_x h) - real_of_int (home_size h) / 2;
          x2 = real_of_int (home_x h) + real_of_int (home_size h) / 2;
          y1 = real_of_int (home_y h) - real_of_int (home_size h) / 2;
          y2 = real_of_int (home_y h) + real_of_int (home_size h) / 2
      in (x1 \<le> x \<and> x \<le> x2) \<and> (y1 \<le> y \<and> y \<le> y2))"

subsection \<open>The player and its turtle\<close>

text \<open>
  The player's position is the position of a \<^verbatim>\<open>RawTurtle\<close> of Python's standard
  library. The model of the turtle keeps its position and its heading in
  degrees, and gives the four methods \<^verbatim>\<open>Player.update\<close> calls their meaning over
  the reals: \<^verbatim>\<open>towards\<close> is the angle of \<^verbatim>\<open>math.atan2\<close> in degrees, reduced to
  \<open>[0, 360)\<close>; \<^verbatim>\<open>forward\<close> moves along the heading; \<^verbatim>\<open>distance\<close> is Euclidean.
\<close>

record turtle =
  xcor :: real
  ycor :: real
  heading :: real

definition atan2 :: "real \<Rightarrow> real \<Rightarrow> real" where
  "atan2 y x =
     (if 0 < x then arctan (y / x)
      else if x < 0 \<and> 0 \<le> y then arctan (y / x) + pi
      else if x < 0 \<and> y < 0 then arctan (y / x) - pi
      else if 0 < y then pi / 2
      else if y < 0 then - (pi / 2)
      else 0)"

definition degrees :: "real \<Rightarrow> real" where
  "degrees r = r * 180 / pi"

definition radians :: "real \<Rightarrow> real" where
  "radians d = d * pi / 180"

definition fmod360 :: "real \<Rightarrow> real" where
  "fmod360 a = a - 360 * real_of_int \<lfloor>a / 360\<rfloor>"

definition towards :: "turtle \<Rightarrow> real \<Rightarrow> real \<Rightarrow> real" where
  "towards t x y = fmod360 (degrees (atan2 (y - ycor t) (x - xcor t)))"

definition setheading :: "turtle \<Rightarrow> real \<Rightarrow> turtle" where
  "setheading t a = t\<lparr>heading := a\<rparr>"

definition forward :: "turtle \<Rightarrow> real \<Rightarrow> turtle" where
  "forward t d = t\<lparr>xcor := xcor t + d * cos (radians (heading t)),
                   ycor := ycor t + d * sin (radians (heading t))\<rparr>"

definition distance :: "turtle \<Rightarrow> real \<Rightarrow> real \<Rightarrow> real" where
  "distance t x y = sqrt ((x - xcor t)\<^sup>2 + (y - ycor t)\<^sup>2)"

record player =
  player_turtle :: turtle
  speed :: real

definition player_x :: "player \<Rightarrow> real" where
  "player_x p = xcor (player_turtle p)"

definition player_y :: "player \<Rightarrow> real" where
  "player_y p = ycor (player_turtle p)"

subsection \<open>Enemies\<close>

text \<open>
  The state each subclass of \<^verbatim>\<open>Enemy\<close> adds. The private speeds (3 for the random
  walker, 4 for the chasing and the fencing enemy) and the teleport cooldown (60)
  are assigned in \<^verbatim>\<open>__init__\<close> only, so they are constants here. The private
  direction of a fencing enemy is only ever one of four string literals.
\<close>

datatype direction = DirRight | DirDown | DirLeft | DirUp

datatype variant =
    RandomWalk (walk_dx: int) (walk_dy: int)
  | Chasing
  | Fencing (fencing_direction: direction)
  | Teleporting (teleport_counter: int)

record enemy =
  enemy_x :: real
  enemy_y :: real
  enemy_size :: int
  enemy_color :: string
  enemy_variant :: variant

text \<open>
  \<^verbatim>\<open>Enemy.__init__(game, size, color)\<close> stores its arguments as they are. The
  position of a new element is set by \<^verbatim>\<open>GameElement.__init__\<close> of \<^verbatim>\<open>gamelib\<close>,
  which is not part of the sources: it is the parameter \<open>origin\<close>.
\<close>

definition Enemy_init :: "real \<times> real \<Rightarrow> int \<Rightarrow> string \<Rightarrow> variant \<Rightarrow> enemy" where
  "Enemy_init origin sz col v =
     \<lparr>enemy_x = fst origin, enemy_y = snd origin,
      enemy_size = sz, enemy_color = col, enemy_variant = v\<rparr>"

subsection \<open>The game session\<close>

text \<open>
  The enemy objects live in the store \<open>objects\<close>; a reference to one is its
  index there. The lists \<open>enemies\<close> (of \<^verbatim>\<open>TurtleAdventureGame\<close>) and \<open>elements\<close>
  (of \<^verbatim>\<open>gamelib.Game\<close>) hold references, so an object in both lists is one object.

  The fields after \<open>enemies\<close> stand for state kept outside the sources: the
  element list, the running flag and the pending timers of \<^verbatim>\<open>gamelib.Game\<close>, the
  banners drawn on the canvas, the position \<^verbatim>\<open>GameElement.__init__\<close> gives a new
  element, and the state of Python's \<^verbatim>\<open>random\<close> module: an arbitrary sequence of
  raw draws \<open>entropy\<close> and the number of draws made so far.
\<close>

datatype callback =
    Create_random_enemy | Create_chasing_enemy
  | Create_fencing_enemy | Create_teleporting_enemy

datatype element = Waypoint_element | Home_element | Player_element | Enemy_element nat

record game =
  level :: int
  screen_width :: int
  screen_height :: int
  game_waypoint :: waypoint
  game_player :: player
  game_home :: home
  enemies :: "nat list"
  elements :: "element list"
  objects :: "enemy list"
  is_running :: bool
  banners :: "string list"
  timers :: "(nat \<times> callback) list"
  origin :: "real \<times> real"
  entropy :: "nat \<Rightarrow> int"
  drawn :: nat

subsection \<open>The random module\<close>

text \<open>
  \<^verbatim>\<open>random.randint(a, b)\<close> returns an integer \<open>N\<close> with \<open>a \<le> N \<le> b\<close> and raises
  \<^verbatim>\<open>ValueError\<close> on an empty range; \<^verbatim>\<open>random.choice(seq)\<close> returns an element of
  a non-empty sequence and raises \<^verbatim>\<open>IndexError\<close> on an empty one. Each takes the
  next raw draw and reduces it into its range, so every sequence of results the
  library can give is the image of some \<open>entropy\<close>.
\<close>

definition randint :: "int \<Rightarrow> int \<Rightarrow> game \<Rightarrow> error + (int \<times> game)" where
  "randint a b g =
     (if b < a then Inl ValueError
      else Inr (a + entropy g (drawn g) mod (b - a + 1), g\<lparr>drawn := Suc (drawn g)\<rparr>))"

definition choice :: "'a list \<Rightarrow> game \<Rightarrow> error + ('a \<times> game)" where
  "choice seq g =
     (if seq = [] then Inl IndexError
      else Inr (seq ! nat (entropy g (drawn g) mod int (length seq)),
                g\<lparr>drawn := Suc (drawn g)\<rparr>))"

subsection \<open>The operations of gamelib the sources call\<close>

text \<open>
  Modelled from the spec: \<^verbatim>\<open>Game.after\<close> and \<^verbatim>\<open>Game.stop\<close> of \<^verbatim>\<open>gamelib\<close>, which
  is not part of the sources. \<open>after\<close> is the spec's \<^verbatim>\<open>schedule(delay_ms, callback)\<close>,
  which records a pending timer; \<open>stop\<close> is its "stop the tick loop and scheduler
  timers".
\<close>

definition after :: "nat \<Rightarrow> callback \<Rightarrow> game \<Rightarrow> game" where
  "after delay cb g = g\<lparr>timers := timers g @ [(delay, cb)]\<rparr>"

definition stop :: "game \<Rightarrow> game" where
  "stop g = g\<lparr>is_running := False, timers := []\<rparr>"

text \<open>
  \<^verbatim>\<open>RandomWalkEnemy.__choose_random_direction\<close>, with the private speed 3.
\<close>

definition choose_random_direction :: "enemy \<Rightarrow> game \<Rightarrow> error + (enemy \<times> game)" where
  "choose_random_direction e g =
     bind_err (choice [''up'', ''down'', ''left'', ''right''] g) (\<lambda>(direction, g1).
       if direction = ''up'' then Inr (e\<lparr>enemy_variant := RandomWalk 0 3\<rparr>, g1)
       else if direction = ''down'' then Inr (e\<lparr>enemy_variant := RandomWalk 0 (- 3)\<rparr>, g1)
       else if direction = ''left'' then Inr (e\<lparr>enemy_variant := RandomWalk (- 3) 0\<rparr>, g1)
       else Inr (e\<lparr>enemy_variant := RandomWalk 3 0\<rparr>, g1))"

text \<open>
  \<^verbatim>\<open>create()\<close> of the enemy classes: a canvas item for each, and the direction of
  a random walker.
\<close>

definition create :: "enemy \<Rightarrow> game \<Rightarrow> error + (enemy \<times> game)" where
  "create e g =
     (case enemy_variant e of
        RandomWalk dx dy \<Rightarrow> choose_random_direction e g
      | _ \<Rightarrow> Inr (e, g))"

text \<open>
  Modelled from the spec: \<^verbatim>\<open>Game.add_element\<close> of \<^verbatim>\<open>gamelib\<close>, which is not part of
  the sources. It "brings the entity under the regular update/render cycle":
  the element joins the game's elements and its own \<^verbatim>\<open>create()\<close> runs. An enemy
  object enters the store when it is first handed to the game.
\<close>

definition add_element :: "enemy \<Rightarrow> game \<Rightarrow> error + game" where
  "add_element e g =
     (let ref = length (objects g);
          g1 = g\<lparr>objects := objects g @ [e], elements := elements g @ [Enemy_element ref]\<rparr>
      in bind_err (create e g1) (\<lambda>(e1, g2). Inr (g2\<lparr>objects := (objects g2)[ref := e1]\<rparr>)))"

text \<open>\<^verbatim>\<open>TurtleAdventureGame.add_enemy\<close>: the reference goes into \<open>enemies\<close> first.\<close>

definition add_enemy :: "enemy \<Rightarrow> game \<Rightarrow> error + game" where
  "add_enemy e g = add_element e (g\<lparr>enemies := enemies g @ [length (objects g)]\<rparr>)"

definition game_over_win :: "game \<Rightarrow> game" where
  "game_over_win g = (let g1 = stop g in g1\<lparr>banners := banners g1 @ [''You Win'']\<rparr>)"

definition game_over_lose :: "game \<Rightarrow> game" where
  "game_over_lose g = (let g1 = stop g in g1\<lparr>banners := banners g1 @ [''You Lose'']\<rparr>)"

section \<open>The methods of the game elements\<close>

subsection \<open>Enemy.hits_player\<close>

text \<open>
  Python's chained comparison \<^verbatim>\<open>a < b < c\<close> is \<^verbatim>\<open>a < b and b < c\<close>. The divisor
  of \<^verbatim>\<open>self.size/2\<close> is the literal 2, so this division cannot raise.
\<close>

definition hits_player :: "enemy \<Rightarrow> game \<Rightarrow> bool" where
  "hits_player e g =
     ((enemy_x e - real_of_int (enemy_size e) / 2 < player_x (game_player g)
         \<and> player_x (game_player g) < enemy_x e + real_of_int (enemy_size e) / 2)
      \<and>
      (enemy_y e - real_of_int (enemy_size e) / 2 < player_y (game_player g)
         \<and> player_y (game_player g) < enemy_y e + real_of_int (enemy_size e) / 2))"

subsection \<open>Player.update\<close>

definition Player_update :: "game \<Rightarrow> game" where
  "Player_update g =
     (let g1 = (if contains (game_home g) (player_x (game_player g)) (player_y (game_player g))
                then game_over_win g else g);
          turtle = player_turtle (game_player g1);
          waypoint = game_waypoint g1
      in if is_active (game_waypoint g1) then
           (let t1 = setheading turtle (towards turtle (waypoint_x waypoint) (waypoint_y waypoint));
                t2 = forward t1 (speed (game_player g1));
                g2 = g1\<lparr>game_player := (game_player g1)\<lparr>player_turtle := t2\<rparr>\<rparr>
            in if distance t2 (waypoint_x waypoint) (waypoint_y waypoint) < speed (game_player g2)
               then g2\<lparr>game_waypoint := deactivate waypoint\<rparr>
               else g2)
         else g1)"

subsection \<open>ChasingEnemy.update\<close>

text \<open>
  \<^verbatim>\<open>(dx**2 + dy**2)**0.5\<close> is the square root of a sum of squares. The two
  divisions by \<open>distance\<close> are the only ones of the method with a divisor that
  is not a literal.
\<close>

definition ChasingEnemy_update :: "enemy \<Rightarrow> game \<Rightarrow> error + (enemy \<times> game)" where
  "ChasingEnemy_update e g =
     (let px = player_x (game_player g);
          py = player_y (game_player g);
          enemy_speed = 4;
          dx = px - enemy_x e;
          dy = py - enemy_y e;
          dist = sqrt (dx\<^sup>2 + dy\<^sup>2)
      in bind_err
           (if dist > 0 then
              bind_err (truediv dx dist) (\<lambda>normalized_dx.
              bind_err (truediv dy dist) (\<lambda>normalized_dy.
                Inr (e\<lparr>enemy_x := enemy_x e + normalized_dx * enemy_speed,
                       enemy_y := enemy_y e + normalized_dy * enemy_speed\<rparr>)))
            else Inr e)
           (\<lambda>e1. Inr (e1, if hits_player e1 g then game_over_lose g else g)))"

subsection \<open>FencingEnemy.update\<close>

definition FencingEnemy_update :: "enemy \<Rightarrow> game \<Rightarrow> enemy \<times> game" where
  "FencingEnemy_update e g =
     (let hx = real_of_int (home_x (game_home g));
          hy = real_of_int (home_y (game_home g));
          square_size = 80;
          square_left = hx - square_size / 2;
          square_right = hx + square_size / 2;
          square_top = hy - square_size / 2;
          square_bottom = hy + square_size / 2;
          e1 = (case enemy_variant e of
                  Fencing DirRight \<Rightarrow>
                    (let e' = e\<lparr>enemy_x := enemy_x e + 4\<rparr>
                     in if enemy_x e' \<ge> square_right
                        then e'\<lparr>enemy_x := square_right, enemy_variant := Fencing DirDown\<rparr>
                        else e')
                | Fencing DirDown \<Rightarrow>
                    (let e' = e\<lparr>enemy_y := enemy_y e + 4\<rparr>
                     in if enemy_y e' \<ge> square_bottom
                        then e'\<lparr>enemy_y := square_bottom, enemy_variant := Fencing DirLeft\<rparr>
                        else e')
                | Fencing DirLeft \<Rightarrow>
                    (let e' = e\<lparr>enemy_x := enemy_x e - 4\<rparr>
                     in if enemy_x e' \<le> square_left
                        then e'\<lparr>enemy_x := square_left, enemy_variant := Fencing DirUp\<rparr>
                        else e')
                | Fencing DirUp \<Rightarrow>
                    (let e' = e\<lparr>enemy_y := enemy_y e - 4\<rparr>
                     in if enemy_y e' \<le> square_top
                        then e'\<lparr>enemy_y := square_top, enemy_variant := Fencing DirRight\<rparr>
                        else e')
                | _ \<Rightarrow> e)
      in (e1, if hits_player e1 g then game_over_lose g else g))"

subsection \<open>TeleportingEnemy.update and teleport\<close>

definition teleport :: "enemy \<Rightarrow> game \<Rightarrow> error + (enemy \<times> game)" where
  "teleport e g =
     bind_err (choice [''player'', ''home''] g) (\<lambda>(ch, g1).
       if ch = ''player'' then
         bind_err (randint (- 200) 200 g1) (\<lambda>(rx, g2).
         bind_err (randint (- 200) 200 g2) (\<lambda>(ry, g3).
           Inr (e\<lparr>enemy_x := player_x (game_player g3) + real_of_int rx,
                  enemy_y := player_y (game_player g3) + real_of_int ry\<rparr>, g3)))
       else
         bind_err (randint (- 200) 200 g1) (\<lambda>(rx, g2).
         bind_err (randint (- 200) 200 g2) (\<lambda>(ry, g3).
           Inr (e\<lparr>enemy_x := real_of_int (home_x (game_home g3)) + real_of_int rx,
                  enemy_y := real_of_int (home_y (game_home g3)) + real_of_int ry\<rparr>, g3))))"

definition TeleportingEnemy_update :: "enemy \<Rightarrow> game \<Rightarrow> error + (enemy \<times> game)" where
  "TeleportingEnemy_update e g =
     (case enemy_variant e of
        Teleporting counter \<Rightarrow>
          (let e1 = e\<lparr>enemy_variant := Teleporting (counter + 1)\<rparr>
           in bind_err
                (if teleport_counter (enemy_variant e1) \<ge> 60 then
                   bind_err (teleport e1 g) (\<lambda>(e2, g1).
                     Inr (e2\<lparr>enemy_variant := Teleporting 0\<rparr>, g1))
                 else Inr (e1, g))
                (\<lambda>(e3, g2). Inr (e3, if hits_player e3 g2 then game_over_lose g2 else g2)))
      | _ \<Rightarrow> Inr (e, g))"

section \<open>EnemyGenerator\<close>

definition RandomWalkEnemy_init :: "game \<Rightarrow> int \<Rightarrow> string \<Rightarrow> enemy" where
  "RandomWalkEnemy_init g sz col = Enemy_init (origin g) sz col (RandomWalk 0 0)"

definition ChasingEnemy_init :: "game \<Rightarrow> int \<Rightarrow> string \<Rightarrow> enemy" where
  "ChasingEnemy_init g sz col = Enemy_init (origin g) sz col Chasing"

definition FencingEnemy_init :: "game \<Rightarrow> int \<Rightarrow> string \<Rightarrow> enemy" where
  "FencingEnemy_init g sz col = Enemy_init (origin g) sz col (Fencing DirRight)"

definition TeleportingEnemy_init :: "game \<Rightarrow> int \<Rightarrow> string \<Rightarrow> enemy" where
  "TeleportingEnemy_init g sz col = Enemy_init (origin g) sz col (Teleporting 0)"

subsection \<open>create_random_enemy\<close>

definition create_random_enemy :: "game \<Rightarrow> error + game" where
  "create_random_enemy g =
     (let random_enemy = RandomWalkEnemy_init g 20 ''red''
      in bind_err
           (if enemy_x random_enemy \<noteq> 100 \<and> enemy_y random_enemy \<noteq> 100 then
              bind_err (randint 0 700 g) (\<lambda>(rx, g1).
              bind_err (randint 0 400 g1) (\<lambda>(ry, g2).
                Inr (random_enemy\<lparr>enemy_x := real_of_int rx, enemy_y := real_of_int ry\<rparr>, g2)))
            else Inr (random_enemy, g))
           (\<lambda>(random_enemy, g3).
              bind_err (add_element random_enemy g3) (\<lambda>g4.
                Inr (after 1000 Create_random_enemy g4))))"

subsection \<open>create_chasing_enemy\<close>

definition create_chasing_enemy :: "game \<Rightarrow> error + game" where
  "create_chasing_enemy g =
     (let chasing_enemy = ChasingEnemy_init g 20 ''purple''
      in bind_err (randint 0 (screen_width g) g) (\<lambda>(rx, g1).
         bind_err (randint 0 (screen_height g1) g1) (\<lambda>(ry, g2).
         bind_err (add_enemy (chasing_enemy\<lparr>enemy_x := real_of_int rx,
                                            enemy_y := real_of_int ry\<rparr>) g2) (\<lambda>g3.
           Inr (after 1000 Create_chasing_enemy g3)))))"

subsection \<open>create_fencing_enemy\<close>

text \<open>
  One roll of a placement: the two \<^verbatim>\<open>random.randint\<close> calls on the range of
  \<open>max_distance_from_home\<close> around the home, assigned to the enemy.
\<close>

definition roll_placement :: "int \<Rightarrow> enemy \<Rightarrow> game \<Rightarrow> error + (enemy \<times> game)" where
  "roll_placement max_distance_from_home e g =
     bind_err (randint (home_x (game_home g) - max_distance_from_home)
                       (home_x (game_home g) + max_distance_from_home) g) (\<lambda>(rx, g1).
     bind_err (randint (home_y (game_home g1) - max_distance_from_home)
                       (home_y (game_home g1) + max_distance_from_home) g1) (\<lambda>(ry, g2).
       Inr (e\<lparr>enemy_x := real_of_int rx, enemy_y := real_of_int ry\<rparr>, g2)))"

text \<open>
  The \<^verbatim>\<open>while\<close> loop of the spawn rule. Nothing bounds the number of its
  iterations, so it is a partial function: \<open>None\<close> is a loop that never ends.
\<close>

partial_function (option) reroll_while :: "int \<Rightarrow> enemy \<Rightarrow> game \<Rightarrow> (error + (enemy \<times> game)) option" where
  "reroll_while max_distance_from_home e g =
     (if contains (game_home g) (enemy_x e) (enemy_y e) then
        (case roll_placement max_distance_from_home e g of
           Inl err \<Rightarrow> Some (Inl err)
         | Inr (e1, g1) \<Rightarrow> reroll_while max_distance_from_home e1 g1)
      else Some (Inr (e, g)))"

text \<open>The placement of one fencing enemy: the body of the \<^verbatim>\<open>for\<close> loop up to \<^verbatim>\<open>add_enemy\<close>.\<close>

definition place_fencing_enemy :: "game \<Rightarrow> (error + (enemy \<times> game)) option" where
  "place_fencing_enemy g =
     (let max_distance_from_home = 25;
          fencing_enemy = FencingEnemy_init g 20 ''blue''
      in case (if enemy_x fencing_enemy \<noteq> real_of_int (home_x (game_home g))
                  \<and> enemy_y fencing_enemy \<noteq> real_of_int (home_y (game_home g))
               then roll_placement max_distance_from_home fencing_enemy g
               else Inr (fencing_enemy, g)) of
           Inl err \<Rightarrow> Some (Inl err)
         | Inr (e1, g1) \<Rightarrow> reroll_while max_distance_from_home e1 g1)"

text \<open>The \<^verbatim>\<open>for\<close> loop, by the number of iterations left.\<close>

fun fencing_for :: "nat \<Rightarrow> game \<Rightarrow> (error + game) option" where
  "fencing_for 0 g = Some (Inr g)"
| "fencing_for (Suc n) g =
     (case place_fencing_enemy g of
        None \<Rightarrow> None
      | Some (Inl err) \<Rightarrow> Some (Inl err)
      | Some (Inr (fencing_enemy, g1)) \<Rightarrow>
          (case add_enemy fencing_enemy g1 of
             Inl err \<Rightarrow> Some (Inl err)
           | Inr g2 \<Rightarrow> fencing_for n g2))"

definition create_fencing_enemy :: "game \<Rightarrow> (error + game) option" where
  "create_fencing_enemy g = fencing_for 15 g"

subsection \<open>create_teleporting_enemy\<close>

fun teleporting_for :: "nat \<Rightarrow> game \<Rightarrow> error + game" where
  "teleporting_for 0 g = Inr g"
| "teleporting_for (Suc n) g =
     (let teleporting_enemy = TeleportingEnemy_init g 20 ''black''
      in bind_err
           (if enemy_x teleporting_enemy \<noteq> 100 \<and> enemy_y teleporting_enemy \<noteq> 100 then
              bind_err (randint 0 (screen_width g) g) (\<lambda>(rx, g1).
              bind_err (randint 0 (screen_height g1) g1) (\<lambda>(ry, g2).
                Inr (teleporting_enemy\<lparr>enemy_x := real_of_int rx,
                                        enemy_y := real_of_int ry\<rparr>, g2)))
            else Inr (teleporting_enemy, g))
           (\<lambda>(teleporting_enemy, g3).
              bind_err (add_enemy teleporting_enemy g3) (\<lambda>g4. teleporting_for n g4)))"

definition create_teleporting_enemy :: "game \<Rightarrow> error + game" where
  "create_teleporting_enemy g =
     bind_err (teleporting_for 5 g) (\<lambda>g1. Inr (after 500 Create_teleporting_enemy g1))"

section \<open>TurtleAdventureGame.init_game\<close>

text \<open>
  The session after \<^verbatim>\<open>__init__\<close> and \<^verbatim>\<open>init_game\<close>, with the four timers of
  \<^verbatim>\<open>EnemyGenerator.__init__\<close>, and the tick loop started. The arguments after the
  level are the state kept outside the sources. Python's \<^verbatim>\<open>//\<close> is the floor
  division \<open>div\<close>.
\<close>

definition init_game :: "int \<Rightarrow> int \<Rightarrow> int \<Rightarrow> real \<times> real \<Rightarrow> (nat \<Rightarrow> int) \<Rightarrow> game" where
  "init_game width height lvl origin0 entropy0 =
     \<lparr>level = lvl, screen_width = width, screen_height = height,
      game_waypoint = \<lparr>waypoint_x = fst origin0, waypoint_y = snd origin0, is_active = False\<rparr>,
      game_player = \<lparr>player_turtle = \<lparr>xcor = 50, ycor = real_of_int (height div 2), heading = 0\<rparr>,
                     speed = 5\<rparr>,
      game_home = Home_init (width - 100, height div 2) 20,
      enemies = [],
      elements = [Waypoint_element, Home_element, Player_element],
      objects = [],
      is_running = True,
      banners = [],
      timers = [(1000, Create_random_enemy), (2000, Create_chasing_enemy),
                (3000, Create_fencing_enemy), (4000, Create_teleporting_enemy)],
      origin = origin0, entropy = entropy0, drawn = 0\<rparr>"

text \<open>
  The assignments \<^verbatim>\<open>player.x = x; player.y = y\<close>: the setters of \<^verbatim>\<open>Player\<close> hand
  the value to the turtle's \<^verbatim>\<open>setx\<close> and \<^verbatim>\<open>sety\<close>.
\<close>

definition player_at :: "real \<Rightarrow> real \<Rightarrow> game \<Rightarrow> game" where
  "player_at x y g =
     g\<lparr>game_player := (game_player g)\<lparr>player_turtle :=
          (player_turtle (game_player g))\<lparr>xcor := x, ycor := y\<rparr>\<rparr>\<rparr>"

text \<open>An enemy object moved to a position: \<^verbatim>\<open>enemy.x = x; enemy.y = y\<close>.\<close>

definition enemy_at :: "real \<Rightarrow> real \<Rightarrow> enemy \<Rightarrow> enemy" where
  "enemy_at x y e = e\<lparr>enemy_x := x, enemy_y := y\<rparr>"

text \<open>
  The session of the examples below: an arena of 800 by 500, so that the home
  is the square of side 20 around \<open>(700, 250)\<close>, new elements at \<open>(0, 0)\<close>, and
  every raw draw 0.
\<close>

definition arena :: game where
  "arena = init_game 800 500 1 (0, 0) (\<lambda>n. 0)"

text \<open>
  What the fencing spawn rule may leave behind when it returns: a fencing enemy
  heading right, outside the home, and either at a rolled placement, each
  coordinate an integer at most 25 from the home's, or still where its
  constructor put it, which happens only when the guard before the first roll
  found one coordinate equal to the home's.
\<close>

definition placed_by_spawn_rule :: "game \<Rightarrow> enemy \<Rightarrow> bool" where
  "placed_by_spawn_rule g e \<longleftrightarrow>
     enemy_variant e = Fencing DirRight
     \<and> \<not> contains (game_home g) (enemy_x e) (enemy_y e)
     \<and> ((enemy_x e = fst (origin g) \<and> enemy_y e = snd (origin g)
          \<and> (fst (origin g) = real_of_int (home_x (game_home g))
               \<or> snd (origin g) = real_of_int (home_y (game_home g))))
        \<or> (\<exists>rx ry. enemy_x e = real_of_int rx \<and> enemy_y e = real_of_int ry
              \<and> \<bar>rx - home_x (game_home g)\<bar> \<le> 25 \<and> \<bar>ry - home_y (game_home g)\<bar> \<le> 25))"

text \<open>
  More sessions on the arena of 800 by 500, told apart by their draws. In
  \<open>rerolling_arena\<close> the first two raw draws are 25, which roll the centre of
  the home, and the rest are 0; in \<open>stuck_arena\<close> every draw is 25. A session
  is \<open>calm\<close> when all its draws to come are 0, and \<open>stuck\<close> when all its draws
  are 25.
\<close>

definition rerolling_arena :: game where
  "rerolling_arena = init_game 800 500 1 (0, 0) (\<lambda>n. if n < 2 then 25 else 0)"

definition calm :: "game \<Rightarrow> bool" where
  "calm g \<longleftrightarrow> game_home g = \<lparr>home_x = 700, home_y = 250, home_size = 20\<rparr>
              \<and> origin g = (0, 0) \<and> (\<forall>n \<ge> drawn g. entropy g n = 0)"

definition stuck :: "game \<Rightarrow> bool" where
  "stuck g \<longleftrightarrow> game_home g = \<lparr>home_x = 700, home_y = 250, home_size = 20\<rparr>
               \<and> origin g = (0, 0) \<and> (\<forall>n. entropy g n = 25)"

definition stuck_arena :: game where
  "stuck_arena = init_game 800 500 1 (0, 0) (\<lambda>n. 25)"

text \<open>A small arena of 100 by 100 whose raw draws are all 700.\<close>

definition small_arena :: game where
  "small_arena = init_game 100 100 1 (0, 0) (\<lambda>n. 700)"

section \<open>Collision test\<close>

text \<open>
  C3. \<^verbatim>\<open>hits_player\<close> holds exactly when the player's point lies strictly inside
  the enemy's square of side \<open>size\<close> around the enemy's position. A player on
  any of the four boundary lines is not hit, in particular at
  \<open>(ex + s/2, ey)\<close>; a player at \<open>(ex + s/2 - \<epsilon>, ey)\<close> with \<open>0 < \<epsilon> < s\<close> is hit.
\<close>

theorem hits_player_strict_interior:
  "(hits_player e g \<longleftrightarrow>
      (enemy_x e - real_of_int (enemy_size e) / 2 < player_x (game_player g)
       \<and> player_x (game_player g) < enemy_x e + real_of_int (enemy_size e) / 2
       \<and> enemy_y e - real_of_int (enemy_size e) / 2 < player_y (game_player g)
       \<and> player_y (game_player g) < enemy_y e + real_of_int (enemy_size e) / 2))
   \<and> (player_x (game_player g) = enemy_x e + real_of_int (enemy_size e) / 2
        \<or> player_x (game_player g) = enemy_x e - real_of_int (enemy_size e) / 2
        \<or> player_y (game_player g) = enemy_y e + real_of_int (enemy_size e) / 2
        \<or> player_y (game_player g) = enemy_y e - real_of_int (enemy_size e) / 2
       \<longrightarrow> \<not> hits_player e g)
   \<and> (0 < eps \<and> eps < real_of_int (enemy_size e)
        \<and> player_x (game_player g) = enemy_x e + real_of_int (enemy_size e) / 2 - eps
        \<and> player_y (game_player g) = enemy_y e
       \<longrightarrow> hits_player e g)"
  by (auto simp: hits_player_def)

text \<open>
  An enemy of size 20 at \<open>(100, 100)\<close>: the player at \<open>(110, 100)\<close> is on the
  boundary and not hit, the player at \<open>(109, 100)\<close> is hit.
\<close>

theorem hits_player_strict_interior_witness:
  "player_x (game_player (player_at 110 100 arena))
     = enemy_x (enemy_at 100 100 (ChasingEnemy_init arena 20 ''purple''))
       + real_of_int (enemy_size (enemy_at 100 100 (ChasingEnemy_init arena 20 ''purple''))) / 2
   \<and> \<not> hits_player (enemy_at 100 100 (ChasingEnemy_init arena 20 ''purple''))
                    (player_at 110 100 arena)
   \<and> (0::real) < 1
   \<and> 1 < real_of_int (enemy_size (enemy_at 100 100 (ChasingEnemy_init arena 20 ''purple'')))
   \<and> player_x (game_player (player_at 109 100 arena))
     = enemy_x (enemy_at 100 100 (ChasingEnemy_init arena 20 ''purple''))
       + real_of_int (enemy_size (enemy_at 100 100 (ChasingEnemy_init arena 20 ''purple''))) / 2 - 1
   \<and> hits_player (enemy_at 100 100 (ChasingEnemy_init arena 20 ''purple''))
                  (player_at 109 100 arena)"
proof -
  let ?e = "enemy_at 100 100 (ChasingEnemy_init arena 20 ''purple'')"
  have e: "enemy_x ?e = 100" "enemy_y ?e = 100" "enemy_size ?e = 20"
    by (simp_all add: enemy_at_def ChasingEnemy_init_def Enemy_init_def)
  have p: "player_x (game_player (player_at x y arena)) = x"
          "player_y (game_player (player_at x y arena)) = y" for x y
    by (simp_all add: player_at_def player_x_def player_y_def)
  show ?thesis
    using hits_player_strict_interior [of ?e "player_at 110 100 arena" 1]
      hits_player_strict_interior [of ?e "player_at 109 100 arena" 1]
    by (simp add: e p)
qed

section \<open>Enemy construction\<close>

text \<open>
  C9, as the claim states it, fails: an enemy constructed with size 0 has size
  0, and the constructor neither raises nor changes the value.
\<close>

theorem Enemy_init_size_counterexample:
  "\<not> 0 < enemy_size (Enemy_init (0, 0) 0 ''red'' Chasing)"
  by (simp add: Enemy_init_def)

text \<open>
  C9, amended. Construction stores the size argument as it is: the enemy's size
  is the argument, so it is positive after construction exactly when the
  argument is.
\<close>

theorem Enemy_init_size_stored:
  "enemy_size (Enemy_init origin0 sz col v) = sz
   \<and> (0 < enemy_size (Enemy_init origin0 sz col v) \<longleftrightarrow> 0 < sz)"
  by (simp add: Enemy_init_def)

theorem Enemy_init_size_stored_witness:
  "enemy_size (Enemy_init (0, 0) 20 ''blue'' (Fencing DirRight)) = 20
   \<and> 0 < enemy_size (Enemy_init (0, 0) 20 ''blue'' (Fencing DirRight))"
  using Enemy_init_size_stored [of "(0, 0)" 20 "''blue''" "Fencing DirRight"]
  by simp

section \<open>The fencing enemy stays on its square\<close>

text \<open>
  C5. A fencing enemy inside the closed square of side 80 around the home is
  inside it after \<^verbatim>\<open>update\<close>. Moving right it advances by 4, and where that
  reaches the right edge it stands on the edge and turns down; likewise down
  turns left at the bottom edge, left turns up at the left edge and up turns
  right at the top edge. The direction changes in no other case, and the other
  coordinate is never touched.
\<close>

theorem FencingEnemy_update_in_square:
  assumes "enemy_variant e = Fencing d"
    and "\<bar>enemy_x e - real_of_int (home_x (game_home g))\<bar> \<le> 40"
    and "\<bar>enemy_y e - real_of_int (home_y (game_home g))\<bar> \<le> 40"
  shows "\<bar>enemy_x (fst (FencingEnemy_update e g)) - real_of_int (home_x (game_home g))\<bar> \<le> 40
       \<and> \<bar>enemy_y (fst (FencingEnemy_update e g)) - real_of_int (home_y (game_home g))\<bar> \<le> 40
       \<and> (d = DirRight \<longrightarrow>
            enemy_y (fst (FencingEnemy_update e g)) = enemy_y e
            \<and> (if enemy_x e + 4 \<ge> real_of_int (home_x (game_home g)) + 40
               then enemy_x (fst (FencingEnemy_update e g)) = real_of_int (home_x (game_home g)) + 40
                    \<and> enemy_variant (fst (FencingEnemy_update e g)) = Fencing DirDown
               else enemy_x (fst (FencingEnemy_update e g)) = enemy_x e + 4
                    \<and> enemy_variant (fst (FencingEnemy_update e g)) = Fencing DirRight))
       \<and> (d = DirDown \<longrightarrow>
            enemy_x (fst (FencingEnemy_update e g)) = enemy_x e
            \<and> (if enemy_y e + 4 \<ge> real_of_int (home_y (game_home g)) + 40
               then enemy_y (fst (FencingEnemy_update e g)) = real_of_int (home_y (game_home g)) + 40
                    \<and> enemy_variant (fst (FencingEnemy_update e g)) = Fencing DirLeft
               else enemy_y (fst (FencingEnemy_update e g)) = enemy_y e + 4
                    \<and> enemy_variant (fst (FencingEnemy_update e g)) = Fencing DirDown))
       \<and> (d = DirLeft \<longrightarrow>
            enemy_y (fst (FencingEnemy_update e g)) = enemy_y e
            \<and> (if enemy_x e - 4 \<le> real_of_int (home_x (game_home g)) - 40
               then enemy_x (fst (FencingEnemy_update e g)) = real_of_int (home_x (game_home g)) - 40
                    \<and> enemy_variant (fst (FencingEnemy_update e g)) = Fencing DirUp
               else enemy_x (fst (FencingEnemy_update e g)) = enemy_x e - 4
                    \<and> enemy_variant (fst (FencingEnemy_update e g)) = Fencing DirLeft))
       \<and> (d = DirUp \<longrightarrow>
            enemy_x (fst (FencingEnemy_update e g)) = enemy_x e
            \<and> (if enemy_y e - 4 \<le> real_of_int (home_y (game_home g)) - 40
               then enemy_y (fst (FencingEnemy_update e g)) = real_of_int (home_y (game_home g)) - 40
                    \<and> enemy_variant (fst (FencingEnemy_update e g)) = Fencing DirRight
               else enemy_y (fst (FencingEnemy_update e g)) = enemy_y e - 4
                    \<and> enemy_variant (fst (FencingEnemy_update e g)) = Fencing DirUp))"
  using assms by (cases d) (auto simp: FencingEnemy_update_def Let_def)

text \<open>
  A fencing enemy at \<open>(738, 250)\<close> moving right: the home is at \<open>(700, 250)\<close>, so
  the step to 742 is cut at the edge 740 and the enemy turns down.
\<close>

theorem FencingEnemy_update_in_square_witness:
  "enemy_variant (enemy_at 738 250 (FencingEnemy_init arena 20 ''blue'')) = Fencing DirRight
   \<and> \<bar>enemy_x (enemy_at 738 250 (FencingEnemy_init arena 20 ''blue''))
        - real_of_int (home_x (game_home arena))\<bar> \<le> 40
   \<and> \<bar>enemy_y (enemy_at 738 250 (FencingEnemy_init arena 20 ''blue''))
        - real_of_int (home_y (game_home arena))\<bar> \<le> 40
   \<and> enemy_x (fst (FencingEnemy_update (enemy_at 738 250 (FencingEnemy_init arena 20 ''blue'')) arena))
       = 740
   \<and> enemy_y (fst (FencingEnemy_update (enemy_at 738 250 (FencingEnemy_init arena 20 ''blue'')) arena))
       = 250
   \<and> enemy_variant (fst (FencingEnemy_update (enemy_at 738 250 (FencingEnemy_init arena 20 ''blue'')) arena))
       = Fencing DirDown"
proof -
  let ?e = "enemy_at 738 250 (FencingEnemy_init arena 20 ''blue'')"
  have e: "enemy_x ?e = 738" "enemy_y ?e = 250" "enemy_variant ?e = Fencing DirRight"
    by (simp_all add: enemy_at_def FencingEnemy_init_def Enemy_init_def)
  have h: "home_x (game_home arena) = 700" "home_y (game_home arena) = 250"
    by (simp_all add: arena_def init_game_def Home_init_def)
  show ?thesis
    using FencingEnemy_update_in_square [of ?e DirRight arena]
    by (simp add: e h)
qed

section \<open>The chasing enemy\<close>

lemma distance_positive_iff:
  "0 < sqrt (dx\<^sup>2 + dy\<^sup>2) \<longleftrightarrow> \<not> (dx = 0 \<and> dy = (0::real))"
  by (simp add: sum_power2_gt_zero_iff)

lemma normalized_step_length:
  assumes "0 < sqrt (dx\<^sup>2 + dy\<^sup>2)"
  shows "sqrt ((dx / sqrt (dx\<^sup>2 + dy\<^sup>2) * s)\<^sup>2 + (dy / sqrt (dx\<^sup>2 + dy\<^sup>2) * s)\<^sup>2) = \<bar>s\<bar>"
proof -
  define d where "d = sqrt (dx\<^sup>2 + dy\<^sup>2)"
  have dpos: "0 < d" using assms by (simp add: d_def)
  have d2: "d\<^sup>2 = dx\<^sup>2 + dy\<^sup>2" by (simp add: d_def)
  have "(dx / d * s)\<^sup>2 + (dy / d * s)\<^sup>2 = (dx\<^sup>2 + dy\<^sup>2) * s\<^sup>2 / d\<^sup>2"
    by (simp add: power_mult_distrib power_divide add_divide_distrib distrib_right)
  also have "\<dots> = s\<^sup>2" using dpos by (simp add: d2 [symmetric])
  finally have "sqrt ((dx / d * s)\<^sup>2 + (dy / d * s)\<^sup>2) = \<bar>s\<bar>" by simp
  then show ?thesis by (simp only: d_def)
qed

text \<open>
  C8. \<^verbatim>\<open>ChasingEnemy.update\<close> never raises: the two divisions by the distance are
  reached only when the distance is positive. An enemy at the player's position
  does not move. Any other enemy moves by the vector from it to the player,
  scaled to length 4, so the Euclidean length of its step is exactly 4.
\<close>

theorem ChasingEnemy_update_step:
  "\<exists>e' g'. ChasingEnemy_update e g = Inr (e', g')
     \<and> (player_x (game_player g) = enemy_x e \<and> player_y (game_player g) = enemy_y e
          \<longrightarrow> enemy_x e' = enemy_x e \<and> enemy_y e' = enemy_y e)
     \<and> (\<not> (player_x (game_player g) = enemy_x e \<and> player_y (game_player g) = enemy_y e)
          \<longrightarrow> sqrt ((enemy_x e' - enemy_x e)\<^sup>2 + (enemy_y e' - enemy_y e)\<^sup>2) = 4
            \<and> enemy_x e' - enemy_x e
                = 4 * ((player_x (game_player g) - enemy_x e)
                       / sqrt ((player_x (game_player g) - enemy_x e)\<^sup>2
                               + (player_y (game_player g) - enemy_y e)\<^sup>2))
            \<and> enemy_y e' - enemy_y e
                = 4 * ((player_y (game_player g) - enemy_y e)
                       / sqrt ((player_x (game_player g) - enemy_x e)\<^sup>2
                               + (player_y (game_player g) - enemy_y e)\<^sup>2)))"
proof (cases "player_x (game_player g) = enemy_x e \<and> player_y (game_player g) = enemy_y e")
  case True
  then show ?thesis
    by (simp add: ChasingEnemy_update_def bind_err_def)
next
  case False
  define dx where "dx = player_x (game_player g) - enemy_x e"
  define dy where "dy = player_y (game_player g) - enemy_y e"
  define d where "d = sqrt (dx\<^sup>2 + dy\<^sup>2)"
  from False have "\<not> (dx = 0 \<and> dy = 0)" by (simp add: dx_def dy_def)
  then have pos: "0 < d" unfolding d_def by (simp only: distance_positive_iff not_False_eq_True)
  have n: "sqrt ((dx / d * 4)\<^sup>2 + (dy / d * 4)\<^sup>2) = 4"
    using normalized_step_length [of dx dy 4] pos unfolding d_def by simp
  define e1 where "e1 = e\<lparr>enemy_x := enemy_x e + dx / d * 4, enemy_y := enemy_y e + dy / d * 4\<rparr>"
  have pos2: "0 < dx\<^sup>2 + dy\<^sup>2" using pos by (simp add: d_def)
  have upd: "ChasingEnemy_update e g = Inr (e1, if hits_player e1 g then game_over_lose g else g)"
    using pos pos2
    by (simp add: ChasingEnemy_update_def bind_err_def truediv_def Let_def
        dx_def [symmetric] dy_def [symmetric] d_def [symmetric] e1_def)
  have "enemy_x e1 - enemy_x e = 4 * (dx / d)" "enemy_y e1 - enemy_y e = 4 * (dy / d)"
    by (simp_all add: e1_def)
  moreover have "sqrt ((enemy_x e1 - enemy_x e)\<^sup>2 + (enemy_y e1 - enemy_y e)\<^sup>2) = 4"
    using n by (simp add: e1_def)
  ultimately show ?thesis
    using False upd unfolding d_def dx_def dy_def by blast
qed

text \<open>
  An enemy at \<open>(0, 0)\<close>: with the player on it, it stays; with the player at
  \<open>(3, 4)\<close>, at distance 5, it moves to \<open>(12/5, 16/5)\<close>, a step of length 4.
\<close>

theorem ChasingEnemy_update_step_witness:
  "(\<exists>e' g'. ChasingEnemy_update (enemy_at 0 0 (ChasingEnemy_init arena 20 ''purple''))
                                (player_at 0 0 arena) = Inr (e', g')
        \<and> enemy_x e' = 0 \<and> enemy_y e' = 0)
   \<and> (\<exists>e' g'. ChasingEnemy_update (enemy_at 0 0 (ChasingEnemy_init arena 20 ''purple''))
                                (player_at 3 4 arena) = Inr (e', g')
        \<and> sqrt ((enemy_x e')\<^sup>2 + (enemy_y e')\<^sup>2) = 4
        \<and> enemy_x e' = 12 / 5 \<and> enemy_y e' = 16 / 5)"
proof -
  let ?e = "enemy_at 0 0 (ChasingEnemy_init arena 20 ''purple'')"
  have e: "enemy_x ?e = 0" "enemy_y ?e = 0"
    by (simp_all add: enemy_at_def)
  have p: "player_x (game_player (player_at x y arena)) = x"
          "player_y (game_player (player_at x y arena)) = y" for x y
    by (simp_all add: player_at_def player_x_def player_y_def)
  have r: "sqrt ((3::real)\<^sup>2 + 4\<^sup>2) = 5"
    by (rule real_sqrt_unique) simp_all
  show ?thesis
    using ChasingEnemy_update_step [of ?e "player_at 0 0 arena"]
      ChasingEnemy_update_step [of ?e "player_at 3 4 arena"]
    by (simp add: e p r)
qed

section \<open>The teleporting enemy\<close>

lemma randint_in_range:
  "a \<le> b \<Longrightarrow> \<exists>r. randint a b g = Inr (r, g\<lparr>drawn := Suc (drawn g)\<rparr>) \<and> a \<le> r \<and> r \<le> b"
  by (simp add: randint_def) (smt (verit) pos_mod_bound pos_mod_sign)

lemma teleport_returns:
  "\<exists>e' g'. teleport e g = Inr (e', g') \<and> enemy_variant e' = enemy_variant e"
proof -
  obtain ch g1 where c: "choice [''player'', ''home''] g = Inr (ch, g1)"
    by (simp add: choice_def)
  obtain rx g2 where r1: "randint (- 200) 200 g1 = Inr (rx, g2)"
    using randint_in_range [of "- 200" 200 g1] by auto
  obtain ry g3 where r2: "randint (- 200) 200 g2 = Inr (ry, g3)"
    using randint_in_range [of "- 200" 200 g2] by auto
  show ?thesis
    by (simp add: teleport_def c r1 r2 bind_err_def)
qed

text \<open>
  C10. \<^verbatim>\<open>TeleportingEnemy.update\<close> never raises. Where the counter plus one is
  below 60, the enemy after the update is the enemy before it with the counter
  one higher, and nothing is drawn from the random module. Otherwise the
  enemy stands where \<^verbatim>\<open>teleport\<close> puts it and its counter is 0. A counter in
  \<open>[0, 60)\<close> stays there, and then the teleporting update is the one where the
  counter reaches 60 exactly.
\<close>

theorem TeleportingEnemy_update_counter:
  assumes "enemy_variant e = Teleporting c"
  shows "\<exists>e' g'. TeleportingEnemy_update e g = Inr (e', g')
     \<and> (c + 1 < 60 \<longrightarrow> e' = e\<lparr>enemy_variant := Teleporting (c + 1)\<rparr> \<and> drawn g' = drawn g)
     \<and> (c + 1 \<ge> 60 \<longrightarrow> enemy_variant e' = Teleporting 0
          \<and> (\<exists>e2 g2. teleport (e\<lparr>enemy_variant := Teleporting (c + 1)\<rparr>) g = Inr (e2, g2)
                \<and> enemy_x e' = enemy_x e2 \<and> enemy_y e' = enemy_y e2))
     \<and> (0 \<le> c \<and> c < 60 \<longrightarrow>
           0 \<le> teleport_counter (enemy_variant e') \<and> teleport_counter (enemy_variant e') < 60
           \<and> (c + 1 \<ge> 60 \<longleftrightarrow> c + 1 = 60))"
proof (cases "c + 1 < 60")
  case True
  then show ?thesis using assms
    by (auto simp: TeleportingEnemy_update_def bind_err_def Let_def game_over_lose_def stop_def)
next
  case False
  obtain e2 g2 where t: "teleport (e\<lparr>enemy_variant := Teleporting (c + 1)\<rparr>) g = Inr (e2, g2)"
    using teleport_returns by blast
  show ?thesis using False assms t
    by (auto simp: TeleportingEnemy_update_def bind_err_def Let_def)
qed

text \<open>
  A new teleporting enemy, moved to \<open>(300, 200)\<close>: its first update leaves it
  there with counter 1. With counter 59 the update teleports it; every raw draw
  of the session is 0, so the choice is the player, at \<open>(50, 250)\<close>, and both
  offsets are \<open>-200\<close>.
\<close>

theorem TeleportingEnemy_update_counter_witness:
  "enemy_variant (enemy_at 300 200 (TeleportingEnemy_init arena 20 ''black'')) = Teleporting 0
   \<and> (\<exists>e' g'. TeleportingEnemy_update (enemy_at 300 200 (TeleportingEnemy_init arena 20 ''black''))
                  arena = Inr (e', g')
         \<and> enemy_x e' = 300 \<and> enemy_y e' = 200 \<and> enemy_variant e' = Teleporting 1)
   \<and> enemy_variant ((enemy_at 300 200 (TeleportingEnemy_init arena 20 ''black''))
                      \<lparr>enemy_variant := Teleporting 59\<rparr>) = Teleporting 59
   \<and> (\<exists>e' g'. TeleportingEnemy_update ((enemy_at 300 200 (TeleportingEnemy_init arena 20 ''black''))
                                         \<lparr>enemy_variant := Teleporting 59\<rparr>)
                  arena = Inr (e', g')
         \<and> enemy_x e' = - 150 \<and> enemy_y e' = 50 \<and> enemy_variant e' = Teleporting 0)"
proof -
  let ?e = "enemy_at 300 200 (TeleportingEnemy_init arena 20 ''black'')"
  have e: "enemy_variant ?e = Teleporting 0" "enemy_x ?e = 300" "enemy_y ?e = 200"
    by (simp_all add: enemy_at_def TeleportingEnemy_init_def Enemy_init_def)
  have t: "teleport (?e\<lparr>enemy_variant := Teleporting 60\<rparr>) arena
             = Inr (?e\<lparr>enemy_variant := Teleporting 60, enemy_x := - 150, enemy_y := 50\<rparr>,
                    arena\<lparr>drawn := 3\<rparr>)"
    by (simp add: teleport_def choice_def randint_def bind_err_def arena_def init_game_def
        player_x_def player_y_def enemy_at_def numeral_3_eq_3)
  show ?thesis
    using TeleportingEnemy_update_counter [of ?e 0 arena]
      TeleportingEnemy_update_counter [of "?e\<lparr>enemy_variant := Teleporting 59\<rparr>" 59 arena]
    by (auto simp: e t)
qed

section \<open>The player's step toward the waypoint\<close>

text \<open>
  C4. The player at \<open>(0, 0)\<close> with speed 5, outside the home, and the waypoint
  activated at \<open>(3, 0)\<close>: one \<^verbatim>\<open>Player.update\<close> puts the player at \<open>(5, 0)\<close>, beyond
  the waypoint, and deactivates the waypoint, the distance left after the move
  being 2; the game goes on running.
\<close>

theorem Player_update_overshoots:
  assumes "player_x (game_player g) = 0" and "player_y (game_player g) = 0"
    and "speed (game_player g) = 5"
    and "\<not> contains (game_home g) 0 0"
  shows "player_x (game_player (Player_update (g\<lparr>game_waypoint := activate (game_waypoint g) 3 0\<rparr>))) = 5
     \<and> player_y (game_player (Player_update (g\<lparr>game_waypoint := activate (game_waypoint g) 3 0\<rparr>))) = 0
     \<and> \<not> is_active (game_waypoint (Player_update (g\<lparr>game_waypoint := activate (game_waypoint g) 3 0\<rparr>)))
     \<and> is_running (Player_update (g\<lparr>game_waypoint := activate (game_waypoint g) 3 0\<rparr>)) = is_running g"
  using assms
  by (simp add: Player_update_def activate_def deactivate_def Let_def player_x_def player_y_def
      towards_def atan2_def degrees_def fmod360_def setheading_def forward_def radians_def distance_def)

theorem Player_update_overshoots_witness:
  "player_x (game_player (player_at 0 0 arena)) = 0
   \<and> player_y (game_player (player_at 0 0 arena)) = 0
   \<and> speed (game_player (player_at 0 0 arena)) = 5
   \<and> \<not> contains (game_home (player_at 0 0 arena)) 0 0
   \<and> player_x (game_player (Player_update
        ((player_at 0 0 arena)\<lparr>game_waypoint := activate (game_waypoint (player_at 0 0 arena)) 3 0\<rparr>))) = 5
   \<and> \<not> is_active (game_waypoint (Player_update
        ((player_at 0 0 arena)\<lparr>game_waypoint := activate (game_waypoint (player_at 0 0 arena)) 3 0\<rparr>)))"
proof -
  have h: "player_x (game_player (player_at 0 0 arena)) = 0"
    "player_y (game_player (player_at 0 0 arena)) = 0"
    "speed (game_player (player_at 0 0 arena)) = 5"
    "\<not> contains (game_home (player_at 0 0 arena)) 0 0"
    by (simp_all add: player_at_def arena_def init_game_def player_x_def player_y_def
        contains_def Home_init_def)
  show ?thesis
    using Player_update_overshoots [OF h] h by simp
qed

section \<open>The fencing spawn rule\<close>

lemma roll_placement_ok:
  assumes "0 \<le> m"
  shows "\<exists>rx ry. roll_placement m e g
            = Inr (e\<lparr>enemy_x := real_of_int rx, enemy_y := real_of_int ry\<rparr>,
                   g\<lparr>drawn := Suc (Suc (drawn g))\<rparr>)
          \<and> \<bar>rx - home_x (game_home g)\<bar> \<le> m \<and> \<bar>ry - home_y (game_home g)\<bar> \<le> m"
proof -
  obtain rx where r1: "randint (home_x (game_home g) - m) (home_x (game_home g) + m) g
        = Inr (rx, g\<lparr>drawn := Suc (drawn g)\<rparr>)"
      and b1: "home_x (game_home g) - m \<le> rx" "rx \<le> home_x (game_home g) + m"
    using randint_in_range [of "home_x (game_home g) - m" "home_x (game_home g) + m" g] assms
    by auto
  let ?g1 = "g\<lparr>drawn := Suc (drawn g)\<rparr>"
  obtain ry where r2: "randint (home_y (game_home g) - m) (home_y (game_home g) + m) ?g1
        = Inr (ry, ?g1\<lparr>drawn := Suc (drawn ?g1)\<rparr>)"
      and b2: "home_y (game_home g) - m \<le> ry" "ry \<le> home_y (game_home g) + m"
    using randint_in_range [of "home_y (game_home g) - m" "home_y (game_home g) + m" ?g1] assms
    by auto
  have "roll_placement m e g
          = Inr (e\<lparr>enemy_x := real_of_int rx, enemy_y := real_of_int ry\<rparr>,
                 g\<lparr>drawn := Suc (Suc (drawn g))\<rparr>)"
    using r1 r2 by (simp add: roll_placement_def bind_err_def)
  moreover have "\<bar>rx - home_x (game_home g)\<bar> \<le> m" "\<bar>ry - home_y (game_home g)\<bar> \<le> m"
    using b1 b2 by linarith+
  ultimately show ?thesis by blast
qed

lemma reroll_while_result:
  assumes "reroll_while m e g = Some r" and "0 \<le> m"
  shows "\<exists>e' g' k. r = Inr (e', g') \<and> g' = g\<lparr>drawn := drawn g + k\<rparr>
           \<and> \<not> contains (game_home g) (enemy_x e') (enemy_y e')
           \<and> (e' = e \<or> (\<exists>rx ry. e' = e\<lparr>enemy_x := real_of_int rx, enemy_y := real_of_int ry\<rparr>
                  \<and> \<bar>rx - home_x (game_home g)\<bar> \<le> m \<and> \<bar>ry - home_y (game_home g)\<bar> \<le> m))"
  using assms
proof (induction m e g r rule: reroll_while.raw_induct)
  case (1 loop m e g r)
  show ?case
  proof (cases "contains (game_home g) (enemy_x e) (enemy_y e)")
    case False
    with "1.hyps" have "r = Inr (e, g)" by simp
    moreover have "g = g\<lparr>drawn := drawn g + 0\<rparr>" by simp
    ultimately show ?thesis using False by blast
  next
    case True
    obtain rx ry where roll: "roll_placement m e g
            = Inr (e\<lparr>enemy_x := real_of_int rx, enemy_y := real_of_int ry\<rparr>,
                   g\<lparr>drawn := Suc (Suc (drawn g))\<rparr>)"
      and near: "\<bar>rx - home_x (game_home g)\<bar> \<le> m" "\<bar>ry - home_y (game_home g)\<bar> \<le> m"
      using roll_placement_ok [OF \<open>0 \<le> m\<close>, of e g] by blast
    let ?e1 = "e\<lparr>enemy_x := real_of_int rx, enemy_y := real_of_int ry\<rparr>"
    let ?g1 = "g\<lparr>drawn := Suc (Suc (drawn g))\<rparr>"
    from "1.hyps" True roll have step: "loop m ?e1 ?g1 = Some r" by simp
    from "1.prems"(1) True roll have unfolded: "reroll_while m ?e1 ?g1 = Some r"
      by (subst (asm) reroll_while.simps) simp
    from "1.IH" [OF step unfolded \<open>0 \<le> m\<close>]
    obtain e' g' k where r: "r = Inr (e', g')" and g': "g' = ?g1\<lparr>drawn := drawn ?g1 + k\<rparr>"
      and out: "\<not> contains (game_home ?g1) (enemy_x e') (enemy_y e')"
      and pos: "e' = ?e1 \<or> (\<exists>rx' ry'. e' = ?e1\<lparr>enemy_x := real_of_int rx', enemy_y := real_of_int ry'\<rparr>
                  \<and> \<bar>rx' - home_x (game_home ?g1)\<bar> \<le> m \<and> \<bar>ry' - home_y (game_home ?g1)\<bar> \<le> m)"
      by blast
    have "g' = g\<lparr>drawn := drawn g + (k + 2)\<rparr>" using g' by simp
    moreover have "\<not> contains (game_home g) (enemy_x e') (enemy_y e')" using out by simp
    moreover have "\<exists>rx ry. e' = e\<lparr>enemy_x := real_of_int rx, enemy_y := real_of_int ry\<rparr>
                  \<and> \<bar>rx - home_x (game_home g)\<bar> \<le> m \<and> \<bar>ry - home_y (game_home g)\<bar> \<le> m"
      using pos near by auto
    ultimately show ?thesis using r by blast
  qed
qed (fact assms(1))

lemma place_fencing_enemy_result:
  assumes "place_fencing_enemy g = Some r"
  shows "\<exists>e k. r = Inr (e, g\<lparr>drawn := drawn g + k\<rparr>) \<and> placed_by_spawn_rule g e"
proof -
  let ?e0 = "FencingEnemy_init g 20 ''blue''"
  have e0: "enemy_x ?e0 = fst (origin g)" "enemy_y ?e0 = snd (origin g)"
    "enemy_variant ?e0 = Fencing DirRight"
    by (simp_all add: FencingEnemy_init_def Enemy_init_def)
  show ?thesis
  proof (cases "fst (origin g) \<noteq> real_of_int (home_x (game_home g))
                  \<and> snd (origin g) \<noteq> real_of_int (home_y (game_home g))")
    case True
    obtain rx ry where roll: "roll_placement 25 ?e0 g
            = Inr (?e0\<lparr>enemy_x := real_of_int rx, enemy_y := real_of_int ry\<rparr>,
                   g\<lparr>drawn := Suc (Suc (drawn g))\<rparr>)"
      and near: "\<bar>rx - home_x (game_home g)\<bar> \<le> 25" "\<bar>ry - home_y (game_home g)\<bar> \<le> 25"
      using roll_placement_ok [of 25 ?e0 g] by auto
    let ?e1 = "?e0\<lparr>enemy_x := real_of_int rx, enemy_y := real_of_int ry\<rparr>"
    let ?g1 = "g\<lparr>drawn := Suc (Suc (drawn g))\<rparr>"
    from assms True roll have "reroll_while 25 ?e1 ?g1 = Some r"
      by (simp add: place_fencing_enemy_def e0)
    from reroll_while_result [OF this]
    obtain e' k where r: "r = Inr (e', ?g1\<lparr>drawn := drawn ?g1 + k\<rparr>)"
      and out: "\<not> contains (game_home ?g1) (enemy_x e') (enemy_y e')"
      and pos: "e' = ?e1 \<or> (\<exists>rx' ry'. e' = ?e1\<lparr>enemy_x := real_of_int rx', enemy_y := real_of_int ry'\<rparr>
                  \<and> \<bar>rx' - home_x (game_home ?g1)\<bar> \<le> 25 \<and> \<bar>ry' - home_y (game_home ?g1)\<bar> \<le> 25)"
      by auto
    have "\<exists>rx ry. enemy_x e' = real_of_int rx \<and> enemy_y e' = real_of_int ry
              \<and> \<bar>rx - home_x (game_home g)\<bar> \<le> 25 \<and> \<bar>ry - home_y (game_home g)\<bar> \<le> 25"
      using pos near by auto
    moreover have "enemy_variant e' = Fencing DirRight" using pos e0 by auto
    moreover have "\<not> contains (game_home g) (enemy_x e') (enemy_y e')" using out by simp
    ultimately have "placed_by_spawn_rule g e'" by (simp add: placed_by_spawn_rule_def)
    moreover have "r = Inr (e', g\<lparr>drawn := drawn g + (k + 2)\<rparr>)" using r by simp
    ultimately show ?thesis by blast
  next
    case False
    with assms have "reroll_while 25 ?e0 g = Some r"
      by (auto simp: place_fencing_enemy_def e0)
    from reroll_while_result [OF this]
    obtain e' k where r: "r = Inr (e', g\<lparr>drawn := drawn g + k\<rparr>)"
      and out: "\<not> contains (game_home g) (enemy_x e') (enemy_y e')"
      and pos: "e' = ?e0 \<or> (\<exists>rx' ry'. e' = ?e0\<lparr>enemy_x := real_of_int rx', enemy_y := real_of_int ry'\<rparr>
                  \<and> \<bar>rx' - home_x (game_home g)\<bar> \<le> 25 \<and> \<bar>ry' - home_y (game_home g)\<bar> \<le> 25)"
      by auto
    have "enemy_variant e' = Fencing DirRight" using pos e0 by auto
    moreover have "(enemy_x e' = fst (origin g) \<and> enemy_y e' = snd (origin g)
          \<and> (fst (origin g) = real_of_int (home_x (game_home g))
               \<or> snd (origin g) = real_of_int (home_y (game_home g))))
        \<or> (\<exists>rx ry. enemy_x e' = real_of_int rx \<and> enemy_y e' = real_of_int ry
              \<and> \<bar>rx - home_x (game_home g)\<bar> \<le> 25 \<and> \<bar>ry - home_y (game_home g)\<bar> \<le> 25)"
      using pos e0 False by auto
    ultimately have "placed_by_spawn_rule g e'" using out by (simp add: placed_by_spawn_rule_def)
    then show ?thesis using r by blast
  qed
qed

lemma add_enemy_fencing:
  assumes "enemy_variant e = Fencing d"
  shows "add_enemy e g
           = Inr (g\<lparr>enemies := enemies g @ [length (objects g)],
                    objects := objects g @ [e],
                    elements := elements g @ [Enemy_element (length (objects g))]\<rparr>)"
  using assms by (simp add: add_enemy_def add_element_def create_def bind_err_def Let_def)

lemma placed_by_spawn_rule_cong:
  "game_home g' = game_home g \<Longrightarrow> origin g' = origin g
     \<Longrightarrow> placed_by_spawn_rule g' e = placed_by_spawn_rule g e"
  by (simp add: placed_by_spawn_rule_def)

lemma fencing_for_result:
  assumes "fencing_for n g = Some r"
  shows "\<exists>g' new. r = Inr g' \<and> game_home g' = game_home g \<and> origin g' = origin g
           \<and> objects g' = objects g @ new \<and> length new = n
           \<and> enemies g' = enemies g @ [length (objects g) ..< length (objects g) + n]
           \<and> (\<forall>e \<in> set new. placed_by_spawn_rule g e)"
  using assms
proof (induction n arbitrary: g)
  case 0
  then show ?case by auto
next
  case (Suc n)
  from Suc.prems obtain r1 where p: "place_fencing_enemy g = Some r1"
    by (cases "place_fencing_enemy g") auto
  from place_fencing_enemy_result [OF p]
  obtain e k where r1: "r1 = Inr (e, g\<lparr>drawn := drawn g + k\<rparr>)" and ok: "placed_by_spawn_rule g e"
    by blast
  let ?g1 = "g\<lparr>drawn := drawn g + k\<rparr>"
  let ?g2 = "?g1\<lparr>enemies := enemies ?g1 @ [length (objects ?g1)],
                  objects := objects ?g1 @ [e],
                  elements := elements ?g1 @ [Enemy_element (length (objects ?g1))]\<rparr>"
  from ok have "enemy_variant e = Fencing DirRight" by (simp add: placed_by_spawn_rule_def)
  then have a: "add_enemy e ?g1 = Inr ?g2" by (rule add_enemy_fencing)
  from Suc.prems p r1 a have "fencing_for n ?g2 = Some r" by simp
  from Suc.IH [OF this]
  obtain g' new where r: "r = Inr g'" and h: "game_home g' = game_home ?g2" "origin g' = origin ?g2"
    and o: "objects g' = objects ?g2 @ new" and l: "length new = n"
    and en: "enemies g' = enemies ?g2 @ [length (objects ?g2) ..< length (objects ?g2) + n]"
    and all: "\<forall>e \<in> set new. placed_by_spawn_rule ?g2 e"
    by blast
  have "objects g' = objects g @ (e # new)" using o by simp
  moreover have "length (e # new) = Suc n" using l by simp
  moreover have "enemies g' = enemies g @ [length (objects g) ..< length (objects g) + Suc n]"
    using en by (simp add: upt_conv_Cons)
  moreover have "\<forall>e' \<in> set (e # new). placed_by_spawn_rule g e'"
    using all ok by (auto simp: placed_by_spawn_rule_def)
  moreover have "game_home g' = game_home g" "origin g' = origin g" using h by simp_all
  ultimately show ?case using r by blast
qed

lemma reroll_while_done:
  "\<not> contains (game_home g) (enemy_x e) (enemy_y e) \<Longrightarrow> reroll_while m e g = Some (Inr (e, g))"
  by (subst reroll_while.simps) simp

lemma reroll_while_again:
  "contains (game_home g) (enemy_x e) (enemy_y e) \<Longrightarrow> roll_placement m e g = Inr (e1, g1)
     \<Longrightarrow> reroll_while m e g = reroll_while m e1 g1"
  by (subst reroll_while.simps) simp

lemma place_fencing_enemy_calm:
  assumes "calm g"
  shows "place_fencing_enemy g
           = Some (Inr ((FencingEnemy_init g 20 ''blue'')\<lparr>enemy_x := 675, enemy_y := 225\<rparr>,
                        g\<lparr>drawn := Suc (Suc (drawn g))\<rparr>))"
proof -
  let ?e0 = "FencingEnemy_init g 20 ''blue''"
  have h: "game_home g = \<lparr>home_x = 700, home_y = 250, home_size = 20\<rparr>" "origin g = (0, 0)"
    and z: "entropy g (drawn g) = 0" "entropy g (Suc (drawn g)) = 0"
    using assms by (simp_all add: calm_def)
  have roll: "roll_placement 25 ?e0 g
        = Inr (?e0\<lparr>enemy_x := 675, enemy_y := 225\<rparr>, g\<lparr>drawn := Suc (Suc (drawn g))\<rparr>)"
    by (simp add: roll_placement_def randint_def bind_err_def h z)
  have out: "\<not> contains (game_home (g\<lparr>drawn := Suc (Suc (drawn g))\<rparr>))
                 (enemy_x (?e0\<lparr>enemy_x := 675, enemy_y := 225\<rparr>))
                 (enemy_y (?e0\<lparr>enemy_x := 675, enemy_y := 225\<rparr>))"
    by (simp add: contains_def h)
  have e0: "enemy_x ?e0 = 0" "enemy_y ?e0 = 0"
    by (simp_all add: FencingEnemy_init_def Enemy_init_def h)
  show ?thesis
    by (simp add: place_fencing_enemy_def e0 h roll reroll_while_done [OF out])
qed

lemma fencing_for_calm:
  "calm g \<Longrightarrow> \<exists>r. fencing_for n g = Some r"
proof (induction n arbitrary: g)
  case 0
  then show ?case by simp
next
  case (Suc n)
  let ?e = "(FencingEnemy_init g 20 ''blue'')\<lparr>enemy_x := 675, enemy_y := 225\<rparr>"
  let ?g1 = "g\<lparr>drawn := Suc (Suc (drawn g))\<rparr>"
  let ?g2 = "?g1\<lparr>enemies := enemies ?g1 @ [length (objects ?g1)],
                  objects := objects ?g1 @ [?e],
                  elements := elements ?g1 @ [Enemy_element (length (objects ?g1))]\<rparr>"
  have p: "place_fencing_enemy g = Some (Inr (?e, ?g1))"
    using Suc.prems by (rule place_fencing_enemy_calm)
  have "enemy_variant ?e = Fencing DirRight"
    by (simp add: FencingEnemy_init_def Enemy_init_def)
  then have a: "add_enemy ?e ?g1 = Inr ?g2" by (rule add_enemy_fencing)
  have "calm ?g2" using Suc.prems by (simp add: calm_def)
  from Suc.IH [OF this] obtain r where "fencing_for n ?g2 = Some r" by blast
  then show ?case
    by (simp only: fencing_for.simps p a option.case sum.case prod.case) blast
qed

lemma rerolling_arena_first:
  "place_fencing_enemy rerolling_arena
     = Some (Inr ((FencingEnemy_init rerolling_arena 20 ''blue'')\<lparr>enemy_x := 675, enemy_y := 225\<rparr>,
                  rerolling_arena\<lparr>drawn := 4\<rparr>))"
proof -
  let ?e0 = "FencingEnemy_init rerolling_arena 20 ''blue''"
  have h: "game_home rerolling_arena = \<lparr>home_x = 700, home_y = 250, home_size = 20\<rparr>"
    "origin rerolling_arena = (0, 0)" "drawn rerolling_arena = 0"
    "entropy rerolling_arena = (\<lambda>n. if n < 2 then 25 else 0)"
    by (simp_all add: rerolling_arena_def init_game_def Home_init_def)
  have roll1: "roll_placement 25 ?e0 rerolling_arena
        = Inr (?e0\<lparr>enemy_x := 700, enemy_y := 250\<rparr>, rerolling_arena\<lparr>drawn := 2\<rparr>)"
    by (simp add: roll_placement_def randint_def bind_err_def h numeral_2_eq_2)
  have in1: "contains (game_home (rerolling_arena\<lparr>drawn := 2\<rparr>))
                 (enemy_x (?e0\<lparr>enemy_x := 700, enemy_y := 250\<rparr>))
                 (enemy_y (?e0\<lparr>enemy_x := 700, enemy_y := 250\<rparr>))"
    by (simp add: contains_def h)
  have roll2: "roll_placement 25 (?e0\<lparr>enemy_x := 700, enemy_y := 250\<rparr>) (rerolling_arena\<lparr>drawn := 2\<rparr>)
        = Inr (?e0\<lparr>enemy_x := 675, enemy_y := 225\<rparr>, rerolling_arena\<lparr>drawn := 4\<rparr>)"
    by (simp add: roll_placement_def randint_def bind_err_def h)
  have out2: "\<not> contains (game_home (rerolling_arena\<lparr>drawn := 4\<rparr>))
                 (enemy_x (?e0\<lparr>enemy_x := 675, enemy_y := 225\<rparr>))
                 (enemy_y (?e0\<lparr>enemy_x := 675, enemy_y := 225\<rparr>))"
    by (simp add: contains_def h)
  have "reroll_while 25 (?e0\<lparr>enemy_x := 700, enemy_y := 250\<rparr>) (rerolling_arena\<lparr>drawn := 2\<rparr>)
          = Some (Inr (?e0\<lparr>enemy_x := 675, enemy_y := 225\<rparr>, rerolling_arena\<lparr>drawn := 4\<rparr>))"
    by (simp only: reroll_while_again [OF in1 roll2] reroll_while_done [OF out2])
  moreover have e0: "enemy_x ?e0 = 0" "enemy_y ?e0 = 0"
    by (simp_all add: FencingEnemy_init_def Enemy_init_def h)
  ultimately show ?thesis
    by (simp add: place_fencing_enemy_def e0 h roll1)
qed

lemma rerolling_arena_returns: "\<exists>r. create_fencing_enemy rerolling_arena = Some r"
proof -
  let ?e = "(FencingEnemy_init rerolling_arena 20 ''blue'')\<lparr>enemy_x := 675, enemy_y := 225\<rparr>"
  let ?g1 = "rerolling_arena\<lparr>drawn := 4\<rparr>"
  let ?g2 = "?g1\<lparr>enemies := enemies ?g1 @ [length (objects ?g1)],
                  objects := objects ?g1 @ [?e],
                  elements := elements ?g1 @ [Enemy_element (length (objects ?g1))]\<rparr>"
  have "enemy_variant ?e = Fencing DirRight"
    by (simp add: FencingEnemy_init_def Enemy_init_def)
  then have a: "add_enemy ?e ?g1 = Inr ?g2" by (rule add_enemy_fencing)
  have "calm ?g2" by (simp add: calm_def rerolling_arena_def init_game_def Home_init_def)
  from fencing_for_calm [OF this, of 14] obtain r where "fencing_for 14 ?g2 = Some r" by blast
  then have "fencing_for (Suc 14) rerolling_arena = Some r"
    by (simp only: fencing_for.simps rerolling_arena_first a option.case sum.case prod.case)
  moreover have "(15::nat) = Suc 14" by simp
  ultimately show ?thesis by (simp only: create_fencing_enemy_def) blast
qed

text \<open>
  C6. Whenever \<^verbatim>\<open>create_fencing_enemy\<close> returns, it returns without an error and
  has added 15 new objects to the game, all of them in \<open>enemies\<close>, and each is a
  fencing enemy that is not inside the home: the \<^verbatim>\<open>while\<close> loop ends only on a
  placement the home does not contain. Each rolled placement has both
  coordinates within 25 of the home's; an enemy that was never rolled, because
  the guard before the first roll failed, still stands where its constructor
  put it.
\<close>

theorem create_fencing_enemy_outside_home:
  assumes "create_fencing_enemy g = Some r"
  shows "\<exists>g' new. r = Inr g' \<and> game_home g' = game_home g
           \<and> objects g' = objects g @ new \<and> length new = 15
           \<and> enemies g' = enemies g @ [length (objects g) ..< length (objects g) + 15]
           \<and> (\<forall>e \<in> set new.
                 enemy_variant e = Fencing DirRight
                 \<and> \<not> contains (game_home g') (enemy_x e) (enemy_y e)
                 \<and> ((enemy_x e = fst (origin g) \<and> enemy_y e = snd (origin g)
                      \<and> (fst (origin g) = real_of_int (home_x (game_home g))
                           \<or> snd (origin g) = real_of_int (home_y (game_home g))))
                    \<or> (\<exists>rx ry. enemy_x e = real_of_int rx \<and> enemy_y e = real_of_int ry
                          \<and> \<bar>rx - home_x (game_home g)\<bar> \<le> 25
                          \<and> \<bar>ry - home_y (game_home g)\<bar> \<le> 25)))"
proof -
  from assms have "fencing_for 15 g = Some r" by (simp add: create_fencing_enemy_def)
  from fencing_for_result [OF this]
  obtain g' new where "r = Inr g'" "game_home g' = game_home g"
    "objects g' = objects g @ new" "length new = 15"
    "enemies g' = enemies g @ [length (objects g) ..< length (objects g) + 15]"
    "\<forall>e \<in> set new. placed_by_spawn_rule g e"
    by blast
  then show ?thesis
    unfolding placed_by_spawn_rule_def by (intro exI [of _ g'] exI [of _ new]) simp
qed

text \<open>
  In \<open>rerolling_arena\<close> the first placement rolled is the centre of the home and
  is rolled again; the call returns with 15 fencing enemies, none in the home.
\<close>

theorem create_fencing_enemy_outside_home_witness:
  "\<exists>g'. create_fencing_enemy rerolling_arena = Some (Inr g')
      \<and> length (objects g') = 15 \<and> enemies g' = [0 ..< 15]
      \<and> (\<forall>e \<in> set (objects g'). \<not> contains (game_home g') (enemy_x e) (enemy_y e))"
proof -
  obtain r where r: "create_fencing_enemy rerolling_arena = Some r"
    using rerolling_arena_returns by blast
  have o: "objects rerolling_arena = []" "enemies rerolling_arena = []"
    by (simp_all add: rerolling_arena_def init_game_def)
  show ?thesis
    using create_fencing_enemy_outside_home [OF r] r by (auto simp: o)
qed

text \<open>
  The loop need not end: in a session whose draws all roll the centre of the
  home, no placement is ever accepted and \<^verbatim>\<open>create_fencing_enemy\<close> never returns.
\<close>

lemma reroll_while_stuck:
  assumes "reroll_while m e g = Some r"
  shows "\<not> (m = 25 \<and> stuck g \<and> contains (game_home g) (enemy_x e) (enemy_y e))"
  using assms
proof (induction m e g r rule: reroll_while.raw_induct)
  case (1 loop m e g r)
  show ?case
  proof
    assume a: "m = 25 \<and> stuck g \<and> contains (game_home g) (enemy_x e) (enemy_y e)"
    then have h: "game_home g = \<lparr>home_x = 700, home_y = 250, home_size = 20\<rparr>"
      and z: "\<And>n. entropy g n = 25"
      by (simp_all add: stuck_def)
    let ?e1 = "e\<lparr>enemy_x := 700, enemy_y := 250\<rparr>"
    let ?g1 = "g\<lparr>drawn := Suc (Suc (drawn g))\<rparr>"
    have roll: "roll_placement 25 e g = Inr (?e1, ?g1)"
      by (simp add: roll_placement_def randint_def bind_err_def h z)
    from "1.hyps" a roll have step: "loop 25 ?e1 ?g1 = Some r" by simp
    from "1.prems" a roll have unfolded: "reroll_while 25 ?e1 ?g1 = Some r"
      by (subst (asm) reroll_while.simps) simp
    have "stuck ?g1" using a by (simp add: stuck_def)
    moreover have "contains (game_home ?g1) (enemy_x ?e1) (enemy_y ?e1)"
      by (simp add: contains_def h)
    ultimately show False using "1.IH" [OF step unfolded] by simp
  qed
qed (fact assms)

lemma create_fencing_enemy_may_hang: "create_fencing_enemy stuck_arena = None"
proof -
  let ?e0 = "FencingEnemy_init stuck_arena 20 ''blue''"
  have h: "game_home stuck_arena = \<lparr>home_x = 700, home_y = 250, home_size = 20\<rparr>"
    "origin stuck_arena = (0, 0)" "entropy stuck_arena = (\<lambda>n. 25)"
    by (simp_all add: stuck_arena_def init_game_def Home_init_def)
  have e0: "enemy_x ?e0 = 0" "enemy_y ?e0 = 0"
    by (simp_all add: FencingEnemy_init_def Enemy_init_def h)
  let ?e1 = "?e0\<lparr>enemy_x := 700, enemy_y := 250\<rparr>"
  let ?g1 = "stuck_arena\<lparr>drawn := Suc (Suc (drawn stuck_arena))\<rparr>"
  have roll: "roll_placement 25 ?e0 stuck_arena = Inr (?e1, ?g1)"
    by (simp add: roll_placement_def randint_def bind_err_def h)
  have "stuck ?g1" by (simp add: stuck_def h)
  moreover have "contains (game_home ?g1) (enemy_x ?e1) (enemy_y ?e1)"
    by (simp add: contains_def h)
  ultimately have "reroll_while 25 ?e1 ?g1 = None"
    using reroll_while_stuck [of 25 ?e1 ?g1] by (cases "reroll_while 25 ?e1 ?g1") auto
  then have "place_fencing_enemy stuck_arena = None"
    by (simp add: place_fencing_enemy_def e0 h roll)
  then have "fencing_for (Suc 14) stuck_arena = None"
    by (simp only: fencing_for.simps option.case)
  moreover have "(15::nat) = Suc 14" by simp
  ultimately show ?thesis by (simp only: create_fencing_enemy_def)
qed

section \<open>Which spawned enemies enter the enemies list\<close>

text \<open>
  \<^verbatim>\<open>create_random_enemy\<close> always returns. It hands the random walker to
  \<^verbatim>\<open>add_element\<close>, not to \<^verbatim>\<open>add_enemy\<close>: the walker becomes an element of the game
  and \<open>enemies\<close> is left as it was. Its placement is rolled in \<open>[0, 700]\<close> by
  \<open>[0, 400]\<close>, whatever the size of the arena.
\<close>

lemma choose_random_direction_returns:
  "\<exists>dx dy. choose_random_direction e g
             = Inr (e\<lparr>enemy_variant := RandomWalk dx dy\<rparr>, g\<lparr>drawn := Suc (drawn g)\<rparr>)"
  by (simp add: choose_random_direction_def choice_def bind_err_def) blast

lemma create_random_enemy_result:
  "\<exists>g' e. create_random_enemy g = Inr g'
      \<and> enemies g' = enemies g
      \<and> objects g' = objects g @ [e]
      \<and> elements g' = elements g @ [Enemy_element (length (objects g))]
      \<and> (\<exists>dx dy. enemy_variant e = RandomWalk dx dy)
      \<and> (fst (origin g) \<noteq> 100 \<and> snd (origin g) \<noteq> 100 \<longrightarrow>
            (\<exists>rx ry. enemy_x e = real_of_int rx \<and> enemy_y e = real_of_int ry
                \<and> 0 \<le> rx \<and> rx \<le> 700 \<and> 0 \<le> ry \<and> ry \<le> 400))
      \<and> (\<not> (fst (origin g) \<noteq> 100 \<and> snd (origin g) \<noteq> 100) \<longrightarrow>
            enemy_x e = fst (origin g) \<and> enemy_y e = snd (origin g))"
proof -
  let ?e0 = "RandomWalkEnemy_init g 20 ''red''"
  have e0: "enemy_x ?e0 = fst (origin g)" "enemy_y ?e0 = snd (origin g)"
    "enemy_variant ?e0 = RandomWalk 0 0"
    by (simp_all add: RandomWalkEnemy_init_def Enemy_init_def)
  have add: "\<exists>dx dy. add_element e1 g1
               = Inr (g1\<lparr>objects := objects g1 @ [e1\<lparr>enemy_variant := RandomWalk dx dy\<rparr>],
                         elements := elements g1 @ [Enemy_element (length (objects g1))],
                         drawn := Suc (drawn g1)\<rparr>)"
    if "enemy_variant e1 = RandomWalk 0 0" for e1 g1
  proof -
    let ?g2 = "g1\<lparr>objects := objects g1 @ [e1], elements := elements g1 @ [Enemy_element (length (objects g1))]\<rparr>"
    obtain dx dy where "choose_random_direction e1 ?g2
             = Inr (e1\<lparr>enemy_variant := RandomWalk dx dy\<rparr>, ?g2\<lparr>drawn := Suc (drawn ?g2)\<rparr>)"
      using choose_random_direction_returns by blast
    with that have "add_element e1 g1
               = Inr (g1\<lparr>objects := objects g1 @ [e1\<lparr>enemy_variant := RandomWalk dx dy\<rparr>],
                         elements := elements g1 @ [Enemy_element (length (objects g1))],
                         drawn := Suc (drawn g1)\<rparr>)"
      by (simp add: add_element_def create_def bind_err_def Let_def)
    then show ?thesis by blast
  qed
  show ?thesis
  proof (cases "fst (origin g) \<noteq> 100 \<and> snd (origin g) \<noteq> 100")
    case True
    let ?g1 = "g\<lparr>drawn := Suc (drawn g)\<rparr>"
    let ?g2 = "g\<lparr>drawn := Suc (Suc (drawn g))\<rparr>"
    obtain rx where r1: "randint 0 700 g = Inr (rx, ?g1)"
      and b1: "0 \<le> rx" "rx \<le> 700"
      using randint_in_range [of 0 700 g] by auto
    obtain ry where r2: "randint 0 400 ?g1 = Inr (ry, ?g2)"
      and b2: "0 \<le> ry" "ry \<le> 400"
      using randint_in_range [of 0 400 ?g1] by auto
    let ?e1 = "?e0\<lparr>enemy_x := real_of_int rx, enemy_y := real_of_int ry\<rparr>"
    obtain dx dy where a: "add_element ?e1 ?g2
               = Inr (?g2\<lparr>objects := objects ?g2 @ [?e1\<lparr>enemy_variant := RandomWalk dx dy\<rparr>],
                         elements := elements ?g2 @ [Enemy_element (length (objects ?g2))],
                         drawn := Suc (drawn ?g2)\<rparr>)"
      using add [of ?e1 ?g2] e0 by auto
    let ?g' = "after 1000 Create_random_enemy
                 (?g2\<lparr>objects := objects ?g2 @ [?e1\<lparr>enemy_variant := RandomWalk dx dy\<rparr>],
                       elements := elements ?g2 @ [Enemy_element (length (objects ?g2))],
                       drawn := Suc (drawn ?g2)\<rparr>)"
    have "create_random_enemy g = Inr ?g'"
      using True by (simp add: create_random_enemy_def e0 r1 r2 a bind_err_def)
    then show ?thesis
      using True b1 b2
      by (intro exI [of _ ?g'] exI [of _ "?e1\<lparr>enemy_variant := RandomWalk dx dy\<rparr>"])
         (auto simp: after_def)
  next
    case False
    obtain dx dy where a: "add_element ?e0 g
               = Inr (g\<lparr>objects := objects g @ [?e0\<lparr>enemy_variant := RandomWalk dx dy\<rparr>],
                         elements := elements g @ [Enemy_element (length (objects g))],
                         drawn := Suc (drawn g)\<rparr>)"
      using add [of ?e0 g] e0 by auto
    let ?g' = "after 1000 Create_random_enemy
                 (g\<lparr>objects := objects g @ [?e0\<lparr>enemy_variant := RandomWalk dx dy\<rparr>],
                         elements := elements g @ [Enemy_element (length (objects g))],
                         drawn := Suc (drawn g)\<rparr>)"
    have "create_random_enemy g = Inr ?g'"
      using False by (auto simp add: create_random_enemy_def e0 a bind_err_def)
    then show ?thesis
      using False
      by (intro exI [of _ ?g'] exI [of _ "?e0\<lparr>enemy_variant := RandomWalk dx dy\<rparr>"])
         (auto simp: after_def e0)
  qed
qed

text \<open>
  The other three callbacks register what they spawn with \<^verbatim>\<open>add_enemy\<close>: one
  chasing enemy, five teleporting enemies, and the fifteen fencing enemies of
  the theorem above.
\<close>

lemma add_enemy_not_walking:
  assumes "\<forall>dx dy. enemy_variant e \<noteq> RandomWalk dx dy"
  shows "add_enemy e g
           = Inr (g\<lparr>enemies := enemies g @ [length (objects g)],
                    objects := objects g @ [e],
                    elements := elements g @ [Enemy_element (length (objects g))]\<rparr>)"
  using assms
  by (cases "enemy_variant e")
     (simp_all add: add_enemy_def add_element_def create_def bind_err_def Let_def)

lemma create_chasing_enemy_result:
  assumes "create_chasing_enemy g = Inr g'"
  shows "\<exists>e. enemies g' = enemies g @ [length (objects g)]
      \<and> objects g' = objects g @ [e]
      \<and> enemy_variant e = Chasing"
proof -
  let ?e0 = "ChasingEnemy_init g 20 ''purple''"
  have e0: "enemy_variant ?e0 = Chasing" by (simp add: ChasingEnemy_init_def Enemy_init_def)
  from assms obtain rx g1 where r1: "randint 0 (screen_width g) g = Inr (rx, g1)"
    by (cases "randint 0 (screen_width g) g") (auto simp: create_chasing_enemy_def bind_err_def)
  then have g1: "g1 = g\<lparr>drawn := Suc (drawn g)\<rparr>"
    by (auto simp: randint_def split: if_splits)
  from assms r1 obtain ry g2 where r2: "randint 0 (screen_height g1) g1 = Inr (ry, g2)"
    by (cases "randint 0 (screen_height g1) g1") (auto simp: create_chasing_enemy_def bind_err_def)
  then have g2: "g2 = g1\<lparr>drawn := Suc (drawn g1)\<rparr>"
    by (auto simp: randint_def split: if_splits)
  let ?e1 = "?e0\<lparr>enemy_x := real_of_int rx, enemy_y := real_of_int ry\<rparr>"
  have a: "add_enemy ?e1 g2
           = Inr (g2\<lparr>enemies := enemies g2 @ [length (objects g2)],
                    objects := objects g2 @ [?e1],
                    elements := elements g2 @ [Enemy_element (length (objects g2))]\<rparr>)"
    by (rule add_enemy_not_walking) (simp add: e0)
  from assms have "g' = after 1000 Create_chasing_enemy
                         (g2\<lparr>enemies := enemies g2 @ [length (objects g2)],
                    objects := objects g2 @ [?e1],
                    elements := elements g2 @ [Enemy_element (length (objects g2))]\<rparr>)"
    by (simp add: create_chasing_enemy_def bind_err_def r1 r2 a)
  then show ?thesis using e0 by (simp add: after_def g1 g2)
qed


lemma teleporting_for_result:
  assumes "teleporting_for n g = Inr g'"
  shows "\<exists>new. objects g' = objects g @ new \<and> length new = n
           \<and> enemies g' = enemies g @ [length (objects g) ..< length (objects g) + n]
           \<and> (\<forall>e \<in> set new. enemy_variant e = Teleporting 0)"
  using assms
proof (induction n arbitrary: g)
  case 0
  then show ?case by simp
next
  case (Suc n)
  let ?e0 = "TeleportingEnemy_init g 20 ''black''"
  have e0: "enemy_variant ?e0 = Teleporting 0"
    by (simp add: TeleportingEnemy_init_def Enemy_init_def)
  define placed where "placed =
     (if enemy_x ?e0 \<noteq> 100 \<and> enemy_y ?e0 \<noteq> 100 then
        bind_err (randint 0 (screen_width g) g) (\<lambda>(rx, g1).
        bind_err (randint 0 (screen_height g1) g1) (\<lambda>(ry, g2).
          Inr (?e0\<lparr>enemy_x := real_of_int rx, enemy_y := real_of_int ry\<rparr>, g2)))
      else Inr (?e0, g))"
  have unfold: "teleporting_for (Suc n) g
      = bind_err placed (\<lambda>(e, g3). bind_err (add_enemy e g3) (\<lambda>g4. teleporting_for n g4))"
    by (simp add: placed_def Let_def)
  with Suc.prems obtain e1 g3 where p: "placed = Inr (e1, g3)"
    by (cases placed) (auto simp: bind_err_def)
  then have e1: "enemy_variant e1 = Teleporting 0" and g3: "objects g3 = objects g" "enemies g3 = enemies g"
    using e0 by (auto simp: placed_def bind_err_def randint_def split: if_splits)
  let ?g4 = "g3\<lparr>enemies := enemies g3 @ [length (objects g3)],
                 objects := objects g3 @ [e1],
                 elements := elements g3 @ [Enemy_element (length (objects g3))]\<rparr>"
  have a: "add_enemy e1 g3 = Inr ?g4"
    by (rule add_enemy_not_walking) (simp add: e1)
  from Suc.prems have "teleporting_for n ?g4 = Inr g'"
    by (simp only: unfold p a bind_err_def sum.case prod.case)
  from Suc.IH [OF this] obtain new where o: "objects g' = objects ?g4 @ new" and l: "length new = n"
    and en: "enemies g' = enemies ?g4 @ [length (objects ?g4) ..< length (objects ?g4) + n]"
    and all: "\<forall>e \<in> set new. enemy_variant e = Teleporting 0"
    by blast
  have "objects g' = objects g @ (e1 # new)" using o g3 by simp
  moreover have "length (e1 # new) = Suc n" using l by simp
  moreover have "enemies g' = enemies g @ [length (objects g) ..< length (objects g) + Suc n]"
    using en g3 by (simp add: upt_conv_Cons)
  moreover have "\<forall>e \<in> set (e1 # new). enemy_variant e = Teleporting 0" using all e1 by simp
  ultimately show ?case by blast
qed

lemma create_teleporting_enemy_result:
  assumes "create_teleporting_enemy g = Inr g'"
  shows "\<exists>new. objects g' = objects g @ new \<and> length new = 5
           \<and> enemies g' = enemies g @ [length (objects g) ..< length (objects g) + 5]
           \<and> (\<forall>e \<in> set new. enemy_variant e = Teleporting 0)"
proof -
  from assms obtain g1 where t: "teleporting_for 5 g = Inr g1"
    and g': "g' = after 500 Create_teleporting_enemy g1"
    by (cases "teleporting_for 5 g") (auto simp: create_teleporting_enemy_def bind_err_def)
  from teleporting_for_result [OF t] show ?thesis
    by (simp add: g' after_def)
qed

text \<open>
  C1. In the session \<open>arena\<close>, the first firing of \<^verbatim>\<open>create_random_enemy\<close> draws
  the placement \<open>(0, 0)\<close> and the direction up, stores the random walker as
  object 0, makes it an element of the game and schedules the next firing;
  the list \<open>enemies\<close> stays empty, so the walker that was spawned is not in it.
\<close>

theorem create_random_enemy_not_in_enemies:
  "create_random_enemy arena =
     Inr (arena\<lparr>elements := [Waypoint_element, Home_element, Player_element, Enemy_element 0],
               objects := [\<lparr>enemy_x = 0, enemy_y = 0, enemy_size = 20, enemy_color = ''red'',
                            enemy_variant = RandomWalk 0 3\<rparr>],
               timers := timers arena @ [(1000, Create_random_enemy)],
               drawn := 3\<rparr>)
   \<and> enemies (arena\<lparr>elements := [Waypoint_element, Home_element, Player_element, Enemy_element 0],
               objects := [\<lparr>enemy_x = 0, enemy_y = 0, enemy_size = 20, enemy_color = ''red'',
                            enemy_variant = RandomWalk 0 3\<rparr>],
               timers := timers arena @ [(1000, Create_random_enemy)],
               drawn := 3\<rparr>) = []"
  by (simp add: create_random_enemy_def RandomWalkEnemy_init_def Enemy_init_def arena_def init_game_def
      randint_def bind_err_def add_element_def create_def choose_random_direction_def choice_def
      after_def Let_def numeral_3_eq_3)

text \<open>
  C7. In the session \<open>small_arena\<close>, an arena of 100 by 100 where every raw draw
  is 700, \<^verbatim>\<open>create_random_enemy\<close> places the random walker at \<open>(700, 299)\<close>: the
  placement is rolled in \<open>[0, 700]\<close> by \<open>[0, 400]\<close>, not in the arena.
\<close>

theorem create_random_enemy_ignores_arena:
  "\<exists>g'. create_random_enemy small_arena = Inr g'
     \<and> screen_width g' = 100 \<and> screen_height g' = 100
     \<and> enemy_x (objects g' ! 0) = 700 \<and> enemy_y (objects g' ! 0) = 299"
  by (simp add: create_random_enemy_def RandomWalkEnemy_init_def Enemy_init_def small_arena_def
      init_game_def randint_def bind_err_def add_element_def create_def choose_random_direction_def
      choice_def after_def Let_def)

section \<open>The player at home\<close>

text \<open>
  C2, as the claim states it, fails. With the player at the centre of the home,
  \<open>(700, 250)\<close>, and the waypoint active at \<open>(710, 250)\<close>, the update that signals
  the win also moves the player to \<open>(705, 250)\<close>.
\<close>

theorem Player_update_at_home_counterexample:
  "contains (game_home (player_at 700 250 arena))
            (player_x (game_player (player_at 700 250 arena)))
            (player_y (game_player (player_at 700 250 arena)))
   \<and> player_x (game_player ((player_at 700 250 arena)
         \<lparr>game_waypoint := activate (game_waypoint (player_at 700 250 arena)) 710 250\<rparr>)) = 700
   \<and> player_x (game_player (Player_update ((player_at 700 250 arena)
         \<lparr>game_waypoint := activate (game_waypoint (player_at 700 250 arena)) 710 250\<rparr>))) = 705"
  by (simp add: Player_update_def activate_def deactivate_def Let_def player_x_def player_y_def
      towards_def atan2_def degrees_def fmod360_def setheading_def forward_def radians_def distance_def
      player_at_def arena_def init_game_def contains_def Home_init_def game_over_win_def stop_def)

text \<open>
  C2, amended. With the player inside the home, \<^verbatim>\<open>Player.update\<close> signals the win:
  the game stops running and the banner "You Win" is drawn. The rest of the
  update runs as in any other call: with the waypoint active the player
  advances by its speed along the heading toward the waypoint, a step of length
  \<open>\<bar>speed\<bar>\<close>, and the waypoint stays active exactly when the distance left is
  not below the speed; with the waypoint inactive the player and the waypoint are
  unchanged.
\<close>

theorem Player_update_at_home:
  assumes "contains (game_home g) (player_x (game_player g)) (player_y (game_player g))"
  shows "\<not> is_running (Player_update g)
     \<and> banners (Player_update g) = banners g @ [''You Win'']
     \<and> (is_active (game_waypoint g) \<longrightarrow>
          player_x (game_player (Player_update g))
            = player_x (game_player g) + speed (game_player g)
                * cos (radians (towards (player_turtle (game_player g))
                                        (waypoint_x (game_waypoint g)) (waypoint_y (game_waypoint g))))
          \<and> player_y (game_player (Player_update g))
            = player_y (game_player g) + speed (game_player g)
                * sin (radians (towards (player_turtle (game_player g))
                                        (waypoint_x (game_waypoint g)) (waypoint_y (game_waypoint g))))
          \<and> sqrt ((player_x (game_player (Player_update g)) - player_x (game_player g))\<^sup>2
                 + (player_y (game_player (Player_update g)) - player_y (game_player g))\<^sup>2)
              = \<bar>speed (game_player g)\<bar>
          \<and> (is_active (game_waypoint (Player_update g))
               \<longleftrightarrow> \<not> distance (player_turtle (game_player (Player_update g)))
                                (waypoint_x (game_waypoint g)) (waypoint_y (game_waypoint g))
                      < speed (game_player g)))
     \<and> (\<not> is_active (game_waypoint g) \<longrightarrow>
          game_player (Player_update g) = game_player g
          \<and> game_waypoint (Player_update g) = game_waypoint g)"
proof -
  have n: "sqrt ((s * cos a)\<^sup>2 + (s * sin a)\<^sup>2) = \<bar>s\<bar>" for s a :: real
  proof -
    have "(s * cos a)\<^sup>2 + (s * sin a)\<^sup>2 = s\<^sup>2 * ((cos a)\<^sup>2 + (sin a)\<^sup>2)"
      by (simp only: power_mult_distrib distrib_left)
    also have "\<dots> = s\<^sup>2" by simp
    finally show ?thesis by simp
  qed
  show ?thesis
    using assms
    by (simp add: Player_update_def deactivate_def Let_def player_x_def player_y_def
      setheading_def forward_def game_over_win_def stop_def n)
qed

text \<open>
  The player at the centre of the home with no waypoint set: the update signals
  the win and the player stays at \<open>(700, 250)\<close>.
\<close>

theorem Player_update_at_home_witness:
  "contains (game_home (player_at 700 250 arena))
            (player_x (game_player (player_at 700 250 arena)))
            (player_y (game_player (player_at 700 250 arena)))
   \<and> \<not> is_active (game_waypoint (player_at 700 250 arena))
   \<and> \<not> is_running (Player_update (player_at 700 250 arena))
   \<and> banners (Player_update (player_at 700 250 arena)) = [''You Win'']
   \<and> player_x (game_player (Player_update (player_at 700 250 arena))) = 700
   \<and> player_y (game_player (Player_update (player_at 700 250 arena))) = 250"
proof -
  have h: "contains (game_home (player_at 700 250 arena))
            (player_x (game_player (player_at 700 250 arena)))
            (player_y (game_player (player_at 700 250 arena)))"
    by (simp add: player_at_def arena_def init_game_def player_x_def player_y_def
        contains_def Home_init_def)
  have w: "\<not> is_active (game_waypoint (player_at 700 250 arena))"
    "banners (player_at 700 250 arena) = []"
    "player_x (game_player (player_at 700 250 arena)) = 700"
    "player_y (game_player (player_at 700 250 arena)) = 250"
    by (simp_all add: player_at_def arena_def init_game_def player_x_def player_y_def)
  show ?thesis
    using Player_update_at_home [OF h] h w by simp
qed

end
